theory Spec2Isabelle
  imports Complex_Main "HOL-Library.Sublist" "HOL-Library.Multiset"
begin

section \<open>The onboarding page (src/app/onboarding/page.tsx)\<close>

subsection \<open>Form data\<close>

text \<open>
  The interface \<open>FormData\<close> of the page, field by field, and the value the page's
  \<open>useState\<close> starts it with.
\<close>

record FormData =
  neighborhoodName :: string
  address :: string
  city :: string
  state :: string
  interests :: "string list"
  communityType :: string

definition initialFormData :: FormData where
  "initialFormData =
     \<lparr> neighborhoodName = '''', address = '''', city = '''', state = '''',
       interests = [], communityType = ''residential'' \<rparr>"

text \<open>
  \<open>handleInputChange\<close> stores \<open>e.target.value\<close> under the computed key
  \<open>e.target.name\<close>. The rendered controls carry the names \<open>neighborhoodName\<close>,
  \<open>address\<close>, \<open>city\<close>, \<open>state\<close> and \<open>communityType\<close>, all with string values. No
  control is named \<open>interests\<close>, and under a name that is no key of \<open>FormData\<close> the
  spread would add a property beside the six fields; for these names, which the form
  never produces, the six fields stay as they are.
\<close>

definition handleInputChange :: "string \<Rightarrow> string \<Rightarrow> FormData \<Rightarrow> FormData" where
  "handleInputChange name v prev =
     (if name = ''neighborhoodName'' then prev\<lparr>neighborhoodName := v\<rparr>
      else if name = ''address'' then prev\<lparr>address := v\<rparr>
      else if name = ''city'' then prev\<lparr>city := v\<rparr>
      else if name = ''state'' then prev\<lparr>state := v\<rparr>
      else if name = ''communityType'' then prev\<lparr>communityType := v\<rparr>
      else prev)"

text \<open>
  \<open>handleInterestToggle\<close>: \<open>includes\<close> decides between \<open>filter(i => i !== interest)\<close>
  and the spread that appends the interest.
\<close>

definition handleInterestToggle :: "string \<Rightarrow> FormData \<Rightarrow> FormData" where
  "handleInterestToggle interest prev =
     prev\<lparr>interests :=
       (if interest \<in> set (interests prev)
        then filter (\<lambda>i. i \<noteq> interest) (interests prev)
        else interests prev @ [interest])\<rparr>"

subsection \<open>Strings\<close>

text \<open>
  \<open>String.prototype.toLowerCase\<close>. Strings here are byte lists. On a string of ASCII
  characters the method turns the letters A to Z into a to z and leaves every other
  character as it is. Beyond ASCII it follows the case mappings of the Unicode tables of
  the JavaScript engine, which are no part of the repository: there the result is the
  value of a function about which nothing is known, so nothing is proved about it.
\<close>

definition toLowerChar :: "char \<Rightarrow> char" where
  "toLowerChar c =
     (let n = (of_char c :: nat) in if 65 \<le> n \<and> n \<le> 90 then char_of (n + 32) else c)"

definition isASCII :: "string \<Rightarrow> bool" where
  "isASCII s = list_all (\<lambda>c. (of_char c :: nat) < 128) s"

definition unicodeLowerCase :: "string \<Rightarrow> string" where
  "unicodeLowerCase = (SOME f. True)"

definition toLowerCase :: "string \<Rightarrow> string" where
  "toLowerCase s = (if isASCII s then map toLowerChar s else unicodeLowerCase s)"

subsection \<open>Page state and the hosted services\<close>

text \<open>
  The four \<open>useState\<close> cells of \<open>OnboardingPage\<close>. \<open>step\<close> is a JavaScript number
  that the page only ever adds 1 to or subtracts 1 from, so it is an integer here.
\<close>

record page =
  step :: int
  isSubmitting :: bool
  error :: "string option"
  formData :: FormData

definition initialPage :: page where
  "initialPage = \<lparr> step = 1, isSubmitting = False, error = None, formData = initialFormData \<rparr>"

text \<open>
  What a \<open>throw\<close> or a rejected promise carries: an instance of \<open>Error\<close> with its
  message, or any other value (the \<open>catch\<close> block tells them apart with
  \<open>instanceof\<close>). An awaited call either rejects or resolves.
\<close>

datatype thrown = ErrorInstance string | OtherValue

datatype 'a awaited = Rejects thrown | Resolves 'a

datatype User = User (uid: string)

datatype Session = Session (session_user: User)

text \<open>A row is the object literal handed to \<open>upsert\<close>: column names with their values.\<close>

datatype jsval = Str string | StrList "string list"

type_synonym row = "(string \<times> jsval) list"

text \<open>
  The hosted services as the page sees them. The auth client holds the session or none.
  The two tables are keyed by \<open>user_id\<close>: \<open>upsert\<close> without \<open>onConflict\<close> replaces the
  row with the same key or inserts one, and \<open>.eq('user_id', id).single()\<close> reads the row
  under that key.
\<close>

record backend =
  auth_session :: "Session option"
  user_profiles :: "string \<rightharpoonup> row"
  neighborhoods :: "string \<rightharpoonup> row"

text \<open>
  What the services answer during one final-step submission: the auth server's answer to
  \<open>getUser\<close> when a session is present, the \<open>error\<close> field of each upsert's response
  (or the rejection of the call), and the readings of \<open>new Date().toISOString()\<close> in
  the order the handler takes them.
\<close>

record responses =
  getUserResponse :: "User option awaited"
  profileUpsert :: "thrown option awaited"
  neighborhoodUpsert :: "thrown option awaited"
  clock :: "nat \<Rightarrow> string"

text \<open>
  \<open>supabase.auth.getUser()\<close>: without a stored session the client resolves with
  \<open>user: null\<close> and asks no server; with one, the server's answer decides.
\<close>

definition getUser :: "responses \<Rightarrow> backend \<Rightarrow> User option awaited" where
  "getUser r b = (case auth_session b of None \<Rightarrow> Resolves None | Some s \<Rightarrow> getUserResponse r)"

text \<open>What the page does to the outside, in the order it does it.\<close>

datatype effect =
    GetSession
  | SelectSingle string string
  | GetUser
  | Upsert string row
  | RouterPush string
  | ConsoleLog string
  | ConsoleError string

fun isUpsert :: "effect \<Rightarrow> bool" where
  "isUpsert (Upsert t r) = True"
| "isUpsert e = False"

fun isUpsertInto :: "string \<Rightarrow> effect \<Rightarrow> bool" where
  "isUpsertInto t (Upsert t' r) = (t' = t)"
| "isUpsertInto t e = False"

fun isRouterPush :: "effect \<Rightarrow> bool" where
  "isRouterPush (RouterPush p) = True"
| "isRouterPush e = False"

subsection \<open>checkAuth\<close>




subsection \<open>handleSubmit\<close>

definition profileRow :: "User \<Rightarrow> FormData \<Rightarrow> string \<Rightarrow> string \<Rightarrow> row" where
  "profileRow u fd created updated =
     [(''user_id'', Str (uid u)),
      (''neighborhood_name'', Str (neighborhoodName fd)),
      (''address'', Str (address fd)),
      (''city'', Str (city fd)),
      (''state'', Str (state fd)),
      (''interests'', StrList (interests fd)),
      (''community_type'', Str (communityType fd)),
      (''created_at'', Str created),
      (''updated_at'', Str updated)]"

definition neighborhoodRow :: "User \<Rightarrow> FormData \<Rightarrow> string \<Rightarrow> string \<Rightarrow> row" where
  "neighborhoodRow u fd created updated =
     [(''user_id'', Str (uid u)),
      (''name'', Str (neighborhoodName fd)),
      (''address'', Str (address fd)),
      (''city'', Str (city fd)),
      (''state'', Str (state fd)),
      (''created_at'', Str created),
      (''updated_at'', Str updated)]"

text \<open>
  The body of the \<open>try\<close> block: the value thrown (or none), the tables afterwards and
  the effects so far. An upsert writes its row exactly when its response carries no
  error; the handler holds no call that deletes or restores a row.
\<close>

definition trySave :: "responses \<Rightarrow> backend \<Rightarrow> FormData \<Rightarrow> thrown option \<times> backend \<times> effect list" where
  "trySave r b fd =
     (case getUser r b of
        Rejects t \<Rightarrow> (Some t, b, [GetUser])
      | Resolves None \<Rightarrow> (Some (ErrorInstance ''No user found''), b, [GetUser])
      | Resolves (Some u) \<Rightarrow>
          (let row1 = profileRow u fd (clock r 0) (clock r 1);
               es1 = [GetUser, ConsoleLog ''Saving profile with data:'',
                      Upsert ''user_profiles'' row1]
           in case profileUpsert r of
                Rejects t \<Rightarrow> (Some t, b, es1)
              | Resolves (Some profileError) \<Rightarrow>
                  (Some profileError, b, es1 @ [ConsoleError ''Profile error:''])
              | Resolves None \<Rightarrow>
                  (let b1 = b\<lparr>user_profiles := (user_profiles b)(uid u \<mapsto> row1)\<rparr>;
                       row2 = neighborhoodRow u fd (clock r 2) (clock r 3);
                       es2 = es1 @ [Upsert ''neighborhoods'' row2]
                   in case neighborhoodUpsert r of
                        Rejects t \<Rightarrow> (Some t, b1, es2)
                      | Resolves (Some neighborhoodError) \<Rightarrow>
                          (Some neighborhoodError, b1,
                           es2 @ [ConsoleError ''Neighborhood error:''])
                      | Resolves None \<Rightarrow>
                          (None,
                           b1\<lparr>neighborhoods := (neighborhoods b1)(uid u \<mapsto> row2)\<rparr>,
                           es2 @ [ConsoleLog ''Successfully saved data, redirecting to dashboard...'',
                                  RouterPush ''/dashboard'']))))"

text \<open>
  \<open>handleSubmit\<close>: below step 3 it only advances the step. At the final step it sets
  the submitting flag and clears the error, runs the \<open>try\<close> block, turns a thrown value
  into the error string (\<open>error.message || ...\<close> replaces an empty message) and, in
  \<open>finally\<close>, resets the submitting flag. The result is the page state once the
  handler's promise has settled.
\<close>

definition handleSubmit :: "responses \<Rightarrow> backend \<Rightarrow> page \<Rightarrow> page \<times> backend \<times> effect list" where
  "handleSubmit r b p =
     (if step p < 3 then (p\<lparr>step := step p + 1\<rparr>, b, [])
      else
        (let p1 = p\<lparr>isSubmitting := True, error := None\<rparr> in
         case trySave r b (formData p1) of
           (None, b', es) \<Rightarrow> (p1\<lparr>isSubmitting := False\<rparr>, b', es)
         | (Some (ErrorInstance msg), b', es) \<Rightarrow>
             (p1\<lparr>error := Some (if msg \<noteq> '''' then msg
                                 else ''An error occurred while saving your profile''),
                 isSubmitting := False\<rparr>,
              b', es @ [ConsoleError ''Error saving profile:''])
         | (Some OtherValue, b', es) \<Rightarrow>
             (p1\<lparr>error := Some ''An unexpected error occurred'', isSubmitting := False\<rparr>,
              b', es)))"

text \<open>The alert of the form: \<open>{error && ...}\<close> shows a non-empty error string.\<close>

definition errorAlert :: "page \<Rightarrow> string option" where
  "errorAlert p = (case error p of None \<Rightarrow> None | Some m \<Rightarrow> if m = '''' then None else Some m)"

subsection \<open>What the form renders, and its events\<close>

text \<open>
  The controls rendered at each step, by the field of \<open>FormData\<close> they edit: one text
  input at step 1; three text inputs and the select at step 2; the checkboxes of the
  interests at step 3.
\<close>

definition controls :: "int \<Rightarrow> string list" where
  "controls s =
     (if s = 1 then [''neighborhoodName''] else []) @
     (if s = 2 then [''address'', ''city'', ''state'', ''communityType''] else []) @
     (if s = 3 then [''interests''] else [])"

definition interestOptions :: "string list" where
  "interestOptions =
     map toLowerCase [''Events'', ''Safety'', ''Environment'', ''Education'', ''Sports'',
                      ''Arts'', ''Food'', ''Business'']"

text \<open>The keys of the interface \<open>FormData\<close> and the property read \<open>formData[key]\<close>.\<close>

definition fieldNames :: "string list" where
  "fieldNames =
     [''neighborhoodName'', ''address'', ''city'', ''state'', ''interests'', ''communityType'']"

definition getField :: "string \<Rightarrow> FormData \<Rightarrow> jsval option" where
  "getField k fd =
     (if k = ''neighborhoodName'' then Some (Str (neighborhoodName fd))
      else if k = ''address'' then Some (Str (address fd))
      else if k = ''city'' then Some (Str (city fd))
      else if k = ''state'' then Some (Str (state fd))
      else if k = ''interests'' then Some (StrList (interests fd))
      else if k = ''communityType'' then Some (Str (communityType fd))
      else None)"

text \<open>
  The events of the form. \<open>Back\<close> exists only while the button is rendered
  (\<open>step > 1\<close>); an input changes only while its control is rendered; the submit button
  is disabled while a submission is running.
\<close>

datatype event =
    InputChange string string
  | InterestToggle string
  | Submit responses
  | Back

fun enabled :: "event \<Rightarrow> page \<Rightarrow> bool" where
  "enabled (InputChange name v) p = (name \<in> set (controls (step p)) \<and> name \<noteq> ''interests'')"
| "enabled (InterestToggle i) p = (step p = 3 \<and> i \<in> set interestOptions)"
| "enabled (Submit r) p = (\<not> isSubmitting p)"
| "enabled Back p = (step p > 1)"

fun fire :: "event \<Rightarrow> backend \<Rightarrow> page \<Rightarrow> page \<times> backend \<times> effect list" where
  "fire (InputChange name v) b p = (p\<lparr>formData := handleInputChange name v (formData p)\<rparr>, b, [])"
| "fire (InterestToggle i) b p = (p\<lparr>formData := handleInterestToggle i (formData p)\<rparr>, b, [])"
| "fire (Submit r) b p = handleSubmit r b p"
| "fire Back b p = (p\<lparr>step := step p - 1\<rparr>, b, [])"

text \<open>The states of the page and the services reachable from a freshly loaded page.\<close>

inductive reachable :: "backend \<Rightarrow> page \<times> backend \<Rightarrow> bool" for b0 :: backend where
  reach_init: "reachable b0 (initialPage, b0)"
| reach_fire: "reachable b0 (p, b) \<Longrightarrow> enabled e p \<Longrightarrow> fire e b p = (p', b', es)
                 \<Longrightarrow> reachable b0 (p', b')"

text \<open>
  A run of the form: the events are fired in order, an event that is not enabled is
  skipped, and the run records the step of every state it passes and all effects.
\<close>

fun run :: "event list \<Rightarrow> backend \<Rightarrow> page \<Rightarrow> int list \<Rightarrow> effect list
             \<Rightarrow> page \<times> backend \<times> int list \<times> effect list" where
  "run [] b p seen es = (p, b, seen, es)"
| "run (e # evs) b p seen es =
     (if enabled e p
      then (case fire e b p of (p', b', es') \<Rightarrow> run evs b' p' (seen @ [step p']) (es @ es'))
      else run evs b p seen es)"

subsection \<open>Outcomes of a final-step submission\<close>

text \<open>
  The submission has an authenticated user when \<open>getUser\<close> resolves with one. An
  error is raised when there is none or when an upsert's call rejects or answers with an
  error.
\<close>

definition authenticated :: "responses \<Rightarrow> backend \<Rightarrow> bool" where
  "authenticated r b = (case getUser r b of Resolves (Some u) \<Rightarrow> True | _ \<Rightarrow> False)"

definition raisesError :: "responses \<Rightarrow> backend \<Rightarrow> bool" where
  "raisesError r b =
     (\<not> authenticated r b \<or> profileUpsert r \<noteq> Resolves None \<or> neighborhoodUpsert r \<noteq> Resolves None)"

text \<open>Concrete services, pages and answers on which the theorems below are evaluated.\<close>

definition exampleClock :: "nat \<Rightarrow> string" where
  "exampleClock n = ''2024-01-01T00:00:00.000Z''"

definition exampleBackend :: backend where
  "exampleBackend =
     \<lparr> auth_session = Some (Session (User ''u1'')), user_profiles = Map.empty,
       neighborhoods = Map.empty \<rparr>"


definition finalPage :: page where
  "finalPage = initialPage\<lparr>step := 3\<rparr>"

definition profileFails :: responses where
  "profileFails =
     \<lparr> getUserResponse = Resolves (Some (User ''u1'')),
       profileUpsert = Resolves (Some (ErrorInstance ''permission denied'')),
       neighborhoodUpsert = Resolves None, clock = exampleClock \<rparr>"

definition neighborhoodFails :: responses where
  "neighborhoodFails =
     \<lparr> getUserResponse = Resolves (Some (User ''u1'')),
       profileUpsert = Resolves None,
       neighborhoodUpsert = Resolves (Some (ErrorInstance '''')), clock = exampleClock \<rparr>"

definition allSucceed :: responses where
  "allSucceed =
     \<lparr> getUserResponse = Resolves (Some (User ''u1'')),
       profileUpsert = Resolves None,
       neighborhoodUpsert = Resolves None, clock = exampleClock \<rparr>"




section \<open>The map component (NeighborhoodMap)\<close>

subsection \<open>Props, geocoding features and the request\<close>

text \<open>
  The props of the component (\<open>city\<close> and \<open>state\<close> are optional) and the two
  interfaces of the geocoding response. Coordinates are JavaScript numbers that the
  component only passes on, never computes with.
\<close>

record NeighborhoodMapProps =
  props_neighborhoodName :: string
  props_address :: string
  props_city :: "string option"
  props_state :: "string option"

type_synonym lnglat = "real \<times> real"

datatype MapboxContext = MapboxContext (ctx_id: string) (ctx_text: string)

record MapboxFeature =
  center :: lnglat
  feature_context :: "MapboxContext list option"

text \<open>\<open>String.prototype.includes\<close>: the second string occurs in the first.\<close>

fun str_includes :: "string \<Rightarrow> string \<Rightarrow> bool" where
  "str_includes [] sub = (sub = [])"
| "str_includes (c # s) sub = (prefix sub (c # s) \<or> str_includes s sub)"

text \<open>\<open>Array.prototype.join\<close> and the truthiness of an optional string.\<close>

fun joinStrings :: "string \<Rightarrow> string list \<Rightarrow> string" where
  "joinStrings sep [] = []"
| "joinStrings sep [x] = x"
| "joinStrings sep (x # y # ys) = x @ sep @ joinStrings sep (y # ys)"

definition truthy :: "string option \<Rightarrow> bool" where
  "truthy s = (case s of None \<Rightarrow> False | Some x \<Rightarrow> x \<noteq> '''')"

definition fullAddress :: "NeighborhoodMapProps \<Rightarrow> string" where
  "fullAddress pr =
     joinStrings '', ''
       (map the (filter truthy [Some (props_address pr), props_city pr, props_state pr]))"

text \<open>
  The query parameters in the order of the object literal; \<open>place\<close> and \<open>region\<close> are
  spread in only for a truthy city and state. The access token is
  \<open>process.env.NEXT_PUBLIC_MAPBOX_TOKEN || ''\<close>, a parameter here.
\<close>

definition queryParams :: "string \<Rightarrow> NeighborhoodMapProps \<Rightarrow> (string \<times> string) list" where
  "queryParams token pr =
     [(''access_token'', token), (''country'', ''US''), (''types'', ''address''),
      (''limit'', ''1''), (''language'', ''en'')] @
     (case props_city pr of Some c \<Rightarrow> if c \<noteq> '''' then [(''place'', c)] else [] | None \<Rightarrow> []) @
     (case props_state pr of Some s \<Rightarrow> if s \<noteq> '''' then [(''region'', s)] else [] | None \<Rightarrow> []) @
     [(''bbox'', ''-112.5,40.0,-111.5,41.0'')]"

text \<open>
  A geocoding request: the full address that \<open>encodeURIComponent\<close> puts into the path
  of the URL, and the query parameters.
\<close>

type_synonym request = "string \<times> (string \<times> string) list"

text \<open>
  The predicate of \<open>data.features.find\<close>: the text of the first context entry whose id
  includes \<open>place\<close> (\<open>region\<close>), lower-cased, is strictly equal to the lower-cased city
  (state); optional chaining makes either side \<open>undefined\<close> when it is missing.
\<close>

definition featureText :: "string \<Rightarrow> MapboxFeature \<Rightarrow> string option" where
  "featureText kind feature =
     (case feature_context feature of
        None \<Rightarrow> None
      | Some ctxs \<Rightarrow> map_option ctx_text (find (\<lambda>ctx. str_includes (ctx_id ctx) kind) ctxs))"

definition isRelevant :: "NeighborhoodMapProps \<Rightarrow> MapboxFeature \<Rightarrow> bool" where
  "isRelevant pr feature =
     (map_option toLowerCase (featureText ''place'' feature) = map_option toLowerCase (props_city pr)
      \<and> map_option toLowerCase (featureText ''region'' feature) = map_option toLowerCase (props_state pr))"

text \<open>\<open>data.features.find(...) || data.features[0]\<close>, on a list with a first element.\<close>

definition relevantFeature :: "NeighborhoodMapProps \<Rightarrow> MapboxFeature \<Rightarrow> MapboxFeature list \<Rightarrow> MapboxFeature" where
  "relevantFeature pr f fs = (case find (isRelevant pr) (f # fs) of Some g \<Rightarrow> g | None \<Rightarrow> f)"

subsection \<open>The map object of the SDK\<close>

text \<open>
  The part of a \<open>mapboxgl.Map\<close> the component reads and writes: camera, controls,
  markers, sources, layers, the listeners registered for the \<open>load\<close> event (each is the
  component's handler closed over the coordinates it was registered with), whether
  \<open>load\<close> has fired, and whether \<open>remove()\<close> was called. A layer keeps its paint
  properties and the admin level its filter \<open>['==', ['get', 'admin_level'], n]\<close>
  selects.
\<close>

datatype source = GeoJSONPoint lnglat | VectorSource string

record layer =
  layer_id :: string
  layer_type :: string
  layer_source :: string
  source_layer :: "string option"
  paint :: "(string \<times> string) list"
  admin_level :: "int option"

record mapbox_map =
  map_style :: string
  map_center :: lnglat
  map_zoom :: int
  mapControls :: "string list"
  markers :: "(lnglat \<times> string) list"
  sources :: "(string \<times> source) list"
  layers :: "layer list"
  loadListeners :: "lnglat list"
  loaded :: bool
  removed :: bool

definition newMap :: mapbox_map where
  "newMap =
     \<lparr> map_style = ''mapbox://styles/mapbox/streets-v12'', map_center = (-74.5, 40),
       map_zoom = 12, mapControls = [], markers = [], sources = [], layers = [],
       loadListeners = [], loaded = False, removed = False \<rparr>"

definition addControl :: "string \<Rightarrow> mapbox_map \<Rightarrow> mapbox_map" where
  "addControl c m = m\<lparr>mapControls := mapControls m @ [c]\<rparr>"

definition flyTo :: "lnglat \<Rightarrow> int \<Rightarrow> mapbox_map \<Rightarrow> mapbox_map" where
  "flyTo c z m = m\<lparr>map_center := c, map_zoom := z\<rparr>"

definition addMarker :: "lnglat \<Rightarrow> string \<Rightarrow> mapbox_map \<Rightarrow> mapbox_map" where
  "addMarker c html m = m\<lparr>markers := markers m @ [(c, html)]\<rparr>"

definition getSource :: "string \<Rightarrow> mapbox_map \<Rightarrow> source option" where
  "getSource i m = map_of (sources m) i"

definition getLayer :: "string \<Rightarrow> mapbox_map \<Rightarrow> layer option" where
  "getLayer i m = find (\<lambda>l. layer_id l = i) (layers m)"

definition addSource :: "string \<Rightarrow> source \<Rightarrow> mapbox_map \<Rightarrow> mapbox_map" where
  "addSource i s m = m\<lparr>sources := sources m @ [(i, s)]\<rparr>"

definition addLayer :: "layer \<Rightarrow> mapbox_map \<Rightarrow> mapbox_map" where
  "addLayer l m = m\<lparr>layers := layers m @ [l]\<rparr>"

definition removeLayer :: "string \<Rightarrow> mapbox_map \<Rightarrow> mapbox_map" where
  "removeLayer i m = m\<lparr>layers := filter (\<lambda>l. layer_id l \<noteq> i) (layers m)\<rparr>"

definition removeSource :: "string \<Rightarrow> mapbox_map \<Rightarrow> mapbox_map" where
  "removeSource i m = m\<lparr>sources := filter (\<lambda>(j, s). j \<noteq> i) (sources m)\<rparr>"

text \<open>\<open>map.on('load', handler)\<close> appends a listener; it calls nothing.\<close>

definition onLoad :: "lnglat \<Rightarrow> mapbox_map \<Rightarrow> mapbox_map" where
  "onLoad c m = m\<lparr>loadListeners := loadListeners m @ [c]\<rparr>"

subsection \<open>The handler of the load event\<close>

definition neighborhoodFill :: layer where
  "neighborhoodFill =
     \<lparr> layer_id = ''neighborhood-fill'', layer_type = ''circle'',
       layer_source = ''neighborhood'', source_layer = None,
       paint = [(''circle-radius'', ''1000''), (''circle-color'', ''#0080ff''),
                (''circle-opacity'', ''0.1''), (''circle-stroke-width'', ''2''),
                (''circle-stroke-color'', ''#0080ff''), (''circle-stroke-opacity'', ''0.5'')],
       admin_level = None \<rparr>"

definition adminLayers :: "layer list" where
  "adminLayers =
     [\<lparr> layer_id = ''neighborhood-boundaries'', layer_type = ''fill'',
        layer_source = ''admin-boundaries'', source_layer = Some ''admin'',
        paint = [(''fill-color'', ''#0080ff''), (''fill-opacity'', ''0.1''),
                 (''fill-outline-color'', ''#0080ff'')],
        admin_level = Some 8 \<rparr>,
      \<lparr> layer_id = ''neighborhood-boundaries-line'', layer_type = ''line'',
        layer_source = ''admin-boundaries'', source_layer = Some ''admin'',
        paint = [(''line-color'', ''#0080ff''), (''line-width'', ''2''),
                 (''line-opacity'', ''0.8'')],
        admin_level = Some 8 \<rparr>,
      \<lparr> layer_id = ''city-boundaries'', layer_type = ''fill'',
        layer_source = ''admin-boundaries'', source_layer = Some ''admin'',
        paint = [(''fill-color'', ''#00ff00''), (''fill-opacity'', ''0.05''),
                 (''fill-outline-color'', ''#00ff00'')],
        admin_level = Some 6 \<rparr>,
      \<lparr> layer_id = ''city-boundaries-line'', layer_type = ''line'',
        layer_source = ''admin-boundaries'', source_layer = Some ''admin'',
        paint = [(''line-color'', ''#00ff00''), (''line-width'', ''2''),
                 (''line-opacity'', ''0.5'')],
        admin_level = Some 6 \<rparr>]"

text \<open>
  The function handed to \<open>map.current.on('load', ...)\<close>, closed over \<open>[lng, lat]\<close>: it
  replaces the \<open>neighborhood\<close> source and its circle layer and, when the map has no
  source \<open>admin-boundaries\<close> yet, adds that source and the four boundary layers. Its
  last call, \<open>getUserLocation()\<close>, only writes to the console.
\<close>

definition loadHandler :: "lnglat \<Rightarrow> mapbox_map \<Rightarrow> mapbox_map" where
  "loadHandler c m =
     (let m1 = (if getSource ''neighborhood'' m \<noteq> None
                then removeSource ''neighborhood'' (removeLayer ''neighborhood-fill'' m)
                else m);
          m2 = addSource ''neighborhood'' (GeoJSONPoint c) m1;
          m3 = addLayer neighborhoodFill m2
      in if getSource ''admin-boundaries'' m3 = None
         then fold addLayer adminLayers
                (addSource ''admin-boundaries'' (VectorSource ''mapbox://mapbox.mapbox-streets-v8'') m3)
         else m3)"

subsection \<open>The component\<close>

text \<open>
  The state of a mounted component: the \<open>error\<close> cell, the ref \<open>map.current\<close>, the
  geocoding requests sent so far, the calls of \<open>geocodeAddress\<close> that still await their
  response (each with the props it closed over), and the dependencies of the last run of
  the effect.
\<close>

record widget =
  mapError :: "string option"
  theMap :: "mapbox_map option"
  fetches :: "request list"
  pending :: "NeighborhoodMapProps list"
  deps :: NeighborhoodMapProps

text \<open>
  What the component returns: the alert with the error string when \<open>error\<close> is truthy,
  the map container otherwise. \<open>mapContainer.current\<close> is set exactly while the
  container is what was rendered.
\<close>

datatype view = ErrorView string | MapView

definition render :: "widget \<Rightarrow> view" where
  "render w = (case mapError w of None \<Rightarrow> MapView | Some m \<Rightarrow> if m = '''' then MapView else ErrorView m)"

definition mapContainerCurrent :: "widget \<Rightarrow> bool" where
  "mapContainerCurrent w = (render w = MapView)"

text \<open>
  The body of the effect up to the first \<open>await\<close>: without the container it returns at
  once; otherwise it creates the map with its two controls and \<open>geocodeAddress\<close> sends
  the request. The constructor and the control calls of the SDK are taken to return.
\<close>

definition runEffect :: "string \<Rightarrow> NeighborhoodMapProps \<Rightarrow> widget \<Rightarrow> widget" where
  "runEffect token pr w =
     (if \<not> mapContainerCurrent w then w
      else w\<lparr>theMap := Some (addControl ''GeolocateControl'' (addControl ''NavigationControl'' newMap)),
             fetches := fetches w @ [(fullAddress pr, queryParams token pr)],
             pending := pending w @ [pr]\<rparr>)"

text \<open>
  The rest of \<open>geocodeAddress\<close>, once the response is there: a rejected \<open>fetch\<close> or
  \<open>json()\<close> ends in the \<open>catch\<close> block; missing or empty \<open>features\<close> set the other
  error string; otherwise the relevant feature's center gets the camera, a marker with
  the popup, and the load handler is registered.
\<close>

definition popupHTML :: "NeighborhoodMapProps \<Rightarrow> string" where
  "popupHTML pr =
     ''<h3 class='' @ [CHR 0x22] @ ''font-bold'' @ [CHR 0x22] @ ''>'' @ props_neighborhoodName pr @ ''</h3><p>'' @ fullAddress pr @ ''</p>''"

definition geocodeDone :: "NeighborhoodMapProps \<Rightarrow> MapboxFeature list option awaited \<Rightarrow> widget \<Rightarrow> widget" where
  "geocodeDone pr outcome w =
     (case outcome of
        Rejects t \<Rightarrow> w\<lparr>mapError := Some ''Failed to load map data''\<rparr>
      | Resolves None \<Rightarrow> w\<lparr>mapError := Some ''Could not find the specified location''\<rparr>
      | Resolves (Some []) \<Rightarrow> w\<lparr>mapError := Some ''Could not find the specified location''\<rparr>
      | Resolves (Some (f # fs)) \<Rightarrow>
          (let c = center (relevantFeature pr f fs) in
           case theMap w of
             None \<Rightarrow> w
           | Some m \<Rightarrow> w\<lparr>theMap := Some (onLoad c (addMarker c (popupHTML pr) (flyTo c 15 m)))\<rparr>))"

text \<open>The cleanup of the effect: it removes what the load handler added, then the map.\<close>

definition cleanup :: "widget \<Rightarrow> widget" where
  "cleanup w =
     (case theMap w of
        None \<Rightarrow> w
      | Some m \<Rightarrow>
          (let m1 = (if getLayer ''neighborhood-fill'' m \<noteq> None then removeLayer ''neighborhood-fill'' m else m);
               m2 = (if getSource ''neighborhood'' m1 \<noteq> None then removeSource ''neighborhood'' m1 else m1);
               m3 = (if getLayer ''neighborhood-boundaries'' m2 \<noteq> None
                     then removeLayer ''neighborhood-boundaries'' m2 else m2);
               m4 = (if getLayer ''neighborhood-boundaries-line'' m3 \<noteq> None
                     then removeLayer ''neighborhood-boundaries-line'' m3 else m3);
               m5 = (if getLayer ''city-boundaries'' m4 \<noteq> None
                     then removeLayer ''city-boundaries'' m4 else m4);
               m6 = (if getLayer ''city-boundaries-line'' m5 \<noteq> None
                     then removeLayer ''city-boundaries-line'' m5 else m5);
               m7 = (if getSource ''admin-boundaries'' m6 \<noteq> None
                     then removeSource ''admin-boundaries'' m6 else m6)
           in w\<lparr>theMap := Some (m7\<lparr>removed := True\<rparr>)\<rparr>))"

text \<open>
  Mounting renders the container (\<open>error\<close> starts as \<open>null\<close>) and runs the effect. After
  that the component meets three kinds of events: the parent renders it again (the
  effect runs again, after its cleanup, only when a dependency changed); the oldest
  pending \<open>geocodeAddress\<close> gets its response; the SDK fires \<open>load\<close> on the current map,
  once, calling the listeners registered by then.
\<close>

definition mount :: "string \<Rightarrow> NeighborhoodMapProps \<Rightarrow> widget" where
  "mount token pr =
     runEffect token pr
       \<lparr> mapError = None, theMap = None, fetches = [], pending = [], deps = pr \<rparr>"

datatype map_event =
    Rerender NeighborhoodMapProps
  | GeocodeSettles "MapboxFeature list option awaited"
  | MapLoad

fun fireMap :: "string \<Rightarrow> map_event \<Rightarrow> widget \<Rightarrow> widget" where
  "fireMap token (Rerender pr) w =
     (if pr = deps w then w else runEffect token pr ((cleanup w)\<lparr>deps := pr\<rparr>))"
| "fireMap token (GeocodeSettles outcome) w =
     (case pending w of
        [] \<Rightarrow> w
      | pr # rest \<Rightarrow> geocodeDone pr outcome (w\<lparr>pending := rest\<rparr>))"
| "fireMap token MapLoad w =
     (case theMap w of
        None \<Rightarrow> w
      | Some m \<Rightarrow>
          if loaded m \<or> removed m then w
          else w\<lparr>theMap := Some (fold loadHandler (loadListeners m) (m\<lparr>loaded := True\<rparr>))\<rparr>)"

fun runMap :: "string \<Rightarrow> map_event list \<Rightarrow> widget \<Rightarrow> widget" where
  "runMap token [] w = w"
| "runMap token (ev # evs) w = runMap token evs (fireMap token ev w)"

text \<open>
  Events under fixed props, events that deliver no geocoding response, and the responses
  that count as a failure: a rejection, or no feature.
\<close>

fun fixedProps :: "NeighborhoodMapProps \<Rightarrow> map_event \<Rightarrow> bool" where
  "fixedProps pr (Rerender pr') = (pr' = pr)"
| "fixedProps pr ev = True"

fun noResponse :: "map_event \<Rightarrow> bool" where
  "noResponse (GeocodeSettles outcome) = False"
| "noResponse ev = True"

fun isFailure :: "MapboxFeature list option awaited \<Rightarrow> bool" where
  "isFailure (Rejects t) = True"
| "isFailure (Resolves None) = True"
| "isFailure (Resolves (Some fs)) = (fs = [])"

text \<open>Concrete props and features on which the theorems below are evaluated.\<close>

definition exampleProps :: NeighborhoodMapProps where
  "exampleProps =
     \<lparr> props_neighborhoodName = ''Maple Grove'', props_address = ''12 Main St'',
       props_city = Some ''Provo'', props_state = Some ''Utah'' \<rparr>"

definition renamedProps :: NeighborhoodMapProps where
  "renamedProps = exampleProps\<lparr>props_neighborhoodName := ''Oak Hill''\<rparr>"

definition orem :: MapboxFeature where
  "orem =
     \<lparr> center = (-111.69, 40.29),
       feature_context = Some [MapboxContext ''place.1'' ''Orem'', MapboxContext ''region.2'' ''Utah''] \<rparr>"

definition provo :: MapboxFeature where
  "provo =
     \<lparr> center = (-111.65, 40.23),
       feature_context = Some [MapboxContext ''postcode.9'' ''84601'',
                               MapboxContext ''place.3'' ''PROVO'',
                               MapboxContext ''region.2'' ''utah''] \<rparr>"

section \<open>Toggling an interest\<close>

lemma toggle_interests:
  "interests (handleInterestToggle i fd) =
     (if i \<in> set (interests fd) then filter (\<lambda>j. j \<noteq> i) (interests fd)
      else interests fd @ [i])"
  by (simp add: handleInterestToggle_def)

lemma filter_neq_absent: "i \<notin> set xs \<Longrightarrow> filter (\<lambda>j. j \<noteq> i) xs = xs"
  by (induction xs) auto

lemma mset_move_to_end:
  "distinct xs \<Longrightarrow> i \<in> set xs \<Longrightarrow> mset (filter (\<lambda>j. j \<noteq> i) xs @ [i]) = mset xs"
  by (induction xs) (auto simp: filter_neq_absent simp del: mset_filter)

lemma toggle_absent_twice:
  assumes "i \<notin> set (interests fd)"
  shows "handleInterestToggle i (handleInterestToggle i fd) = fd"
proof -
  have "filter (\<lambda>j. j \<noteq> i) (interests fd) = interests fd"
    using assms by (rule filter_neq_absent)
  with assms show ?thesis
    by (simp add: handleInterestToggle_def)
qed

lemma toggle_present_twice:
  assumes "i \<in> set (interests fd)"
  shows "interests (handleInterestToggle i (handleInterestToggle i fd)) =
           filter (\<lambda>j. j \<noteq> i) (interests fd) @ [i]"
  using assms by (simp add: handleInterestToggle_def)

text \<open>
  C9, as the code has it. On an interests list without duplicates, toggling \<open>i\<close> flips
  the membership of \<open>i\<close> and of nothing else, keeps the list free of duplicates and keeps
  the other elements in their order. Toggling twice gives back the original form data
  when \<open>i\<close> was absent; when \<open>i\<close> was present, the second toggle appends it, so the
  result is the original list with \<open>i\<close> moved to the end: the same elements, not always
  the same list.
\<close>

theorem C9_toggle_amended:
  assumes "distinct (interests fd)"
  shows "(i \<in> set (interests (handleInterestToggle i fd)) \<longleftrightarrow> i \<notin> set (interests fd))
       \<and> (\<forall>j. j \<noteq> i \<longrightarrow>
             (j \<in> set (interests (handleInterestToggle i fd)) \<longleftrightarrow> j \<in> set (interests fd)))
       \<and> distinct (interests (handleInterestToggle i fd))
       \<and> filter (\<lambda>j. j \<noteq> i) (interests (handleInterestToggle i fd)) =
           filter (\<lambda>j. j \<noteq> i) (interests fd)
       \<and> (i \<notin> set (interests fd) \<longrightarrow>
             handleInterestToggle i (handleInterestToggle i fd) = fd)
       \<and> (i \<in> set (interests fd) \<longrightarrow>
             interests (handleInterestToggle i (handleInterestToggle i fd)) =
               filter (\<lambda>j. j \<noteq> i) (interests fd) @ [i])
       \<and> mset (interests (handleInterestToggle i (handleInterestToggle i fd))) =
           mset (interests fd)"
proof -
  have flip: "i \<in> set (interests (handleInterestToggle i fd)) \<longleftrightarrow> i \<notin> set (interests fd)"
    by (simp add: toggle_interests)
  have others: "\<forall>j. j \<noteq> i \<longrightarrow>
      (j \<in> set (interests (handleInterestToggle i fd)) \<longleftrightarrow> j \<in> set (interests fd))"
    by (simp add: toggle_interests)
  have dist: "distinct (interests (handleInterestToggle i fd))"
    using assms by (simp add: toggle_interests)
  have order: "filter (\<lambda>j. j \<noteq> i) (interests (handleInterestToggle i fd)) =
      filter (\<lambda>j. j \<noteq> i) (interests fd)"
    by (simp add: toggle_interests)
  have absent: "i \<notin> set (interests fd) \<longrightarrow>
      handleInterestToggle i (handleInterestToggle i fd) = fd"
    using toggle_absent_twice by blast
  have present: "i \<in> set (interests fd) \<longrightarrow>
      interests (handleInterestToggle i (handleInterestToggle i fd)) =
        filter (\<lambda>j. j \<noteq> i) (interests fd) @ [i]"
    using toggle_present_twice by blast
  have same: "mset (interests (handleInterestToggle i (handleInterestToggle i fd))) =
      mset (interests fd)"
  proof (cases "i \<in> set (interests fd)")
    case True
    with assms show ?thesis
      by (simp only: toggle_present_twice mset_move_to_end)
  next
    case False
    then show ?thesis by (simp add: toggle_absent_twice)
  qed
  from flip others dist order absent present same show ?thesis by blast
qed

theorem C9_toggle_amended_witness:
  "distinct [''events'', ''safety'']
   \<and> interests (handleInterestToggle ''events''
        (handleInterestToggle ''events'' (initialFormData\<lparr>interests := [''events'', ''safety'']\<rparr>)))
       = [''safety'', ''events'']
   \<and> handleInterestToggle ''arts''
        (handleInterestToggle ''arts'' (initialFormData\<lparr>interests := [''events'', ''safety'']\<rparr>))
       = initialFormData\<lparr>interests := [''events'', ''safety'']\<rparr>"
  using C9_toggle_amended [of "initialFormData\<lparr>interests := [''events'', ''safety'']\<rparr>" "''events''"]
    C9_toggle_amended [of "initialFormData\<lparr>interests := [''events'', ''safety'']\<rparr>" "''arts''"]
  by (simp add: initialFormData_def)

text \<open>
  C9 as the spec words it fails in its last part: with \<open>events\<close> first in a list of two,
  two toggles return the list in another order.
\<close>

theorem C9_toggle_twice_counterexample:
  "distinct (interests (initialFormData\<lparr>interests := [''events'', ''safety'']\<rparr>))
   \<and> interests (handleInterestToggle ''events''
        (handleInterestToggle ''events'' (initialFormData\<lparr>interests := [''events'', ''safety'']\<rparr>)))
       \<noteq> interests (initialFormData\<lparr>interests := [''events'', ''safety'']\<rparr>)"
  by (simp add: handleInterestToggle_def initialFormData_def)

section \<open>The final-step submission\<close>

text \<open>
  C1, as the code has it. At the final step with an authenticated user the handler
  always sends the upsert into \<open>user_profiles\<close>; it sends the upsert into
  \<open>neighborhoods\<close> exactly when the first upsert succeeded, so it sends two upserts,
  one per table, in that case and one otherwise; and it redirects to the dashboard, and
  nowhere else, if and only if both upserts succeed, in which case both rows are written
  under the user's id.
\<close>

theorem C1_final_submit_amended:
  assumes "\<not> step p < 3" and "getUser r b = Resolves (Some u)"
  shows "case handleSubmit r b p of (p', b', es) \<Rightarrow>
           length (filter (isUpsertInto ''user_profiles'') es) = 1
         \<and> length (filter (isUpsertInto ''neighborhoods'') es) =
             (if profileUpsert r = Resolves None then 1 else 0)
         \<and> length (filter isUpsert es) = (if profileUpsert r = Resolves None then 2 else 1)
         \<and> (RouterPush ''/dashboard'' \<in> set es \<longleftrightarrow>
              profileUpsert r = Resolves None \<and> neighborhoodUpsert r = Resolves None)
         \<and> (filter isRouterPush es = [] \<or> filter isRouterPush es = [RouterPush ''/dashboard''])
         \<and> (profileUpsert r = Resolves None \<and> neighborhoodUpsert r = Resolves None \<longrightarrow>
              user_profiles b' =
                (user_profiles b)(uid u \<mapsto> profileRow u (formData p) (clock r 0) (clock r 1))
            \<and> neighborhoods b' =
                (neighborhoods b)(uid u \<mapsto> neighborhoodRow u (formData p) (clock r 2) (clock r 3)))"
  using assms
  by (simp add: handleSubmit_def trySave_def Let_def
           split: awaited.splits option.splits thrown.splits)

theorem C1_final_submit_amended_witness:
  "\<not> step finalPage < 3 \<and> getUser allSucceed exampleBackend = Resolves (Some (User ''u1''))
   \<and> length (filter isUpsert (snd (snd (handleSubmit allSucceed exampleBackend finalPage)))) = 2
   \<and> RouterPush ''/dashboard'' \<in> set (snd (snd (handleSubmit allSucceed exampleBackend finalPage)))"
proof -
  have h1: "\<not> step finalPage < 3" by (simp add: finalPage_def initialPage_def)
  have h2: "getUser allSucceed exampleBackend = Resolves (Some (User ''u1''))"
    by (simp add: getUser_def allSucceed_def exampleBackend_def)
  have h3: "profileUpsert allSucceed = Resolves None \<and> neighborhoodUpsert allSucceed = Resolves None"
    by (simp add: allSucceed_def)
  from C1_final_submit_amended [OF h1 h2] h1 h2 h3 show ?thesis
    by (simp add: case_prod_beta)
qed

text \<open>
  C1 as the spec words it fails: when the upsert into \<open>user_profiles\<close> answers with an
  error, the handler throws before the second upsert, so one upsert is sent and none
  into \<open>neighborhoods\<close>.
\<close>

theorem C1_two_upserts_counterexample:
  "\<not> step finalPage < 3 \<and> getUser profileFails exampleBackend = Resolves (Some (User ''u1''))
   \<and> length (filter isUpsert (snd (snd (handleSubmit profileFails exampleBackend finalPage)))) = 1
   \<and> filter (isUpsertInto ''neighborhoods'')
        (snd (snd (handleSubmit profileFails exampleBackend finalPage))) = []"
  by (simp add: handleSubmit_def trySave_def getUser_def profileFails_def exampleBackend_def
        finalPage_def initialPage_def Let_def)

text \<open>
  C3. Whenever the final-step submission raises an error (no user, or an upsert that
  rejects or answers with an error), the handler leaves the page exactly as it was but
  for a non-empty error string, which the form shows, and a submitting flag that is
  false; it redirects nowhere, and it has called \<open>getUser\<close> once and each upsert at most
  once, so nothing was retried.
\<close>

theorem C3_error_recovery:
  assumes "\<not> step p < 3" and "raisesError r b"
  shows "case handleSubmit r b p of (p', b', es) \<Rightarrow>
           (\<exists>m. m \<noteq> '''' \<and> errorAlert p' = Some m \<and> p' = p\<lparr>error := Some m, isSubmitting := False\<rparr>)
         \<and> \<not> isSubmitting p'
         \<and> filter isRouterPush es = []
         \<and> length (filter (\<lambda>e. e = GetUser) es) = 1
         \<and> length (filter (isUpsertInto ''user_profiles'') es) \<le> 1
         \<and> length (filter (isUpsertInto ''neighborhoods'') es) \<le> 1"
  using assms
  by (auto simp add: handleSubmit_def trySave_def Let_def raisesError_def authenticated_def errorAlert_def
           split: awaited.splits option.splits thrown.splits)

theorem C3_error_recovery_witness:
  "\<not> step finalPage < 3 \<and> raisesError neighborhoodFails exampleBackend
   \<and> errorAlert (fst (handleSubmit neighborhoodFails exampleBackend finalPage)) =
       Some ''An error occurred while saving your profile''
   \<and> \<not> isSubmitting (fst (handleSubmit neighborhoodFails exampleBackend finalPage))
   \<and> filter isRouterPush (snd (snd (handleSubmit neighborhoodFails exampleBackend finalPage))) = []"
proof -
  have h1: "\<not> step finalPage < 3" by (simp add: finalPage_def initialPage_def)
  have h2: "raisesError neighborhoodFails exampleBackend"
    by (simp add: raisesError_def neighborhoodFails_def)
  have h3: "error (fst (handleSubmit neighborhoodFails exampleBackend finalPage)) =
      Some ''An error occurred while saving your profile''"
    by (simp add: handleSubmit_def trySave_def getUser_def neighborhoodFails_def exampleBackend_def
        finalPage_def initialPage_def Let_def)
  from C3_error_recovery [OF h1 h2] h1 h2 h3 show ?thesis
    by (auto simp add: case_prod_beta errorAlert_def)
qed

text \<open>
  C8. The submission is not atomic across the two tables: when the upsert into
  \<open>user_profiles\<close> succeeds and the upsert into \<open>neighborhoods\<close> fails, the handler
  ends with the profile row written under the user's id, the \<open>neighborhoods\<close> table as
  it was, an error string shown and no redirect.
\<close>

theorem C8_not_atomic:
  assumes "\<not> step p < 3" and "getUser r b = Resolves (Some u)"
    and "profileUpsert r = Resolves None" and "neighborhoodUpsert r \<noteq> Resolves None"
  shows "case handleSubmit r b p of (p', b', es) \<Rightarrow>
           user_profiles b' = (user_profiles b)(uid u \<mapsto> profileRow u (formData p) (clock r 0) (clock r 1))
         \<and> user_profiles b' (uid u) = Some (profileRow u (formData p) (clock r 0) (clock r 1))
         \<and> neighborhoods b' = neighborhoods b
         \<and> (\<exists>m. m \<noteq> '''' \<and> errorAlert p' = Some m)
         \<and> filter isRouterPush es = []"
  using assms
  by (auto simp add: handleSubmit_def trySave_def Let_def errorAlert_def
           split: awaited.splits option.splits thrown.splits)

theorem C8_not_atomic_witness:
  "\<not> step finalPage < 3 \<and> getUser neighborhoodFails exampleBackend = Resolves (Some (User ''u1''))
   \<and> profileUpsert neighborhoodFails = Resolves None
   \<and> neighborhoodUpsert neighborhoodFails \<noteq> Resolves None
   \<and> user_profiles (fst (snd (handleSubmit neighborhoodFails exampleBackend finalPage))) ''u1'' =
       Some (profileRow (User ''u1'') initialFormData (exampleClock 0) (exampleClock 1))
   \<and> neighborhoods (fst (snd (handleSubmit neighborhoodFails exampleBackend finalPage))) ''u1'' = None
   \<and> filter isRouterPush (snd (snd (handleSubmit neighborhoodFails exampleBackend finalPage))) = []"
proof -
  have h1: "\<not> step finalPage < 3" by (simp add: finalPage_def initialPage_def)
  have h2: "getUser neighborhoodFails exampleBackend = Resolves (Some (User ''u1''))"
    by (simp add: getUser_def neighborhoodFails_def exampleBackend_def)
  have h3: "profileUpsert neighborhoodFails = Resolves None" by (simp add: neighborhoodFails_def)
  have h4: "neighborhoodUpsert neighborhoodFails \<noteq> Resolves None" by (simp add: neighborhoodFails_def)
  have h5: "formData finalPage = initialFormData \<and> clock neighborhoodFails = exampleClock
      \<and> neighborhoods exampleBackend ''u1'' = None"
    by (simp add: finalPage_def initialPage_def neighborhoodFails_def exampleBackend_def)
  from C8_not_atomic [OF h1 h2 h3 h4] h1 h2 h3 h4 h5 show ?thesis
    by (simp add: case_prod_beta)
qed

section \<open>Authentication before onboarding\<close>




section \<open>The step counter\<close>

lemma handleSubmit_step:
  "step (fst (handleSubmit r b p)) = (if step p < 3 then step p + 1 else step p)"
  by (simp add: handleSubmit_def Let_def split: prod.splits option.splits thrown.splits)

lemma fire_step_range:
  assumes "enabled e p" and "1 \<le> step p" and "step p \<le> 3"
  shows "1 \<le> step (fst (fire e b p)) \<and> step (fst (fire e b p)) \<le> 3"
  using assms by (cases e) (simp_all add: handleSubmit_step)

text \<open>
  C10. From a freshly loaded page (step 1), whatever events are fired while they are
  enabled and whatever the services answer, the step stays between 1 and 3: submit adds 1
  only below 3, and Back, which exists only above 1, subtracts 1.
\<close>

theorem C10_step_invariant:
  assumes "reachable b0 (p, b)"
  shows "1 \<le> step p \<and> step p \<le> 3"
  using assms
proof (induction "(p, b)" arbitrary: p b rule: reachable.induct)
  case reach_init
  show ?case by (simp add: initialPage_def)
next
  case (reach_fire p b e p' b' es)
  then have "1 \<le> step p \<and> step p \<le> 3" by simp
  with reach_fire.hyps(3) fire_step_range [of e p b] reach_fire.hyps(4)
  show ?case by simp
qed

theorem C10_step_invariant_witness:
  "reachable exampleBackend (initialPage\<lparr>step := 2\<rparr>, exampleBackend)
   \<and> 1 \<le> step (initialPage\<lparr>step := 2\<rparr>) \<and> step (initialPage\<lparr>step := 2\<rparr>) \<le> 3"
proof -
  have e: "enabled (Submit allSucceed) initialPage" by (simp add: initialPage_def)
  have f: "fire (Submit allSucceed) exampleBackend initialPage =
      (initialPage\<lparr>step := 2\<rparr>, exampleBackend, [])"
    by (simp add: handleSubmit_def initialPage_def)
  have r: "reachable exampleBackend (initialPage\<lparr>step := 2\<rparr>, exampleBackend)"
    by (rule reach_fire [OF reach_init e f])
  from C10_step_invariant [OF r] r show ?thesis by simp
qed

section \<open>Fields and steps of the form\<close>

lemma handleSubmit_next:
  "step p < 3 \<Longrightarrow> handleSubmit r b p = (p\<lparr>step := step p + 1\<rparr>, b, [])"
  by (simp add: handleSubmit_def)

lemma fire_step_cases:
  assumes "enabled e p" and "fire e b p = (p', b', es')"
  shows "(step p' = step p \<and> (es' = [] \<or> \<not> step p < 3))
       \<or> (step p' = step p + 1 \<and> es' = [])
       \<or> (step p' = step p - 1 \<and> es' = [])"
proof (cases e)
  case (InputChange n v)
  with assms show ?thesis by auto
next
  case (InterestToggle i)
  with assms show ?thesis by auto
next
  case (Submit r)
  show ?thesis
  proof (cases "step p < 3")
    case True
    with assms Submit show ?thesis by (auto simp add: handleSubmit_next)
  next
    case False
    have "step (fst (handleSubmit r b p)) = step p"
      using False by (simp add: handleSubmit_step)
    with assms Submit False show ?thesis by simp
  qed
next
  case Back
  with assms show ?thesis by auto
qed

lemma upto_1_3: "[1..3::int] = [1, 2, 3]"
  by (simp add: upto.simps)

lemma subseq_snoc: "subseq xs ys \<Longrightarrow> subseq xs (ys @ [y])"
  by (rule subseq_rev_drop_many)

lemma subseq_upto_step:
  assumes "subseq [1..s] seen" and "1 \<le> s"
  shows "subseq [1..s] (seen @ [s])" and "subseq [1..s + 1] (seen @ [s + 1])"
    and "subseq [1..s - 1] (seen @ [s - 1])"
proof -
  show "subseq [1..s] (seen @ [s])" using assms(1) by (rule subseq_snoc)
  have "[1..s + 1] = [1..s] @ [s + 1]" using assms(2) by (simp add: upto_rec2)
  then show "subseq [1..s + 1] (seen @ [s + 1])"
    using assms(1) by (simp add: list_emb_append_mono)
  have "[1..s] = [1..s - 1] @ [s]" using assms(2) by (simp add: upto_rec2)
  then have "subseq [1..s - 1] [1..s]"
    using subseq_rev_drop_many [of "[1..s - 1]" "[1..s - 1]" "[s]"] by simp
  then have "subseq [1..s - 1] seen" using assms(1) subseq_order.trans by blast
  then show "subseq [1..s - 1] (seen @ [s - 1])" by (rule subseq_snoc)
qed

lemma run_subseq:
  assumes "1 \<le> step p" and "step p \<le> 3" and "subseq [1..step p] seen"
    and "es = [] \<or> subseq [1, 2, 3] seen"
  shows "case run evs b p seen es of (p', b', seen', es') \<Rightarrow> es' = [] \<or> subseq [1, 2, 3] seen'"
  using assms
proof (induction evs arbitrary: b p seen es)
  case Nil
  then show ?case by simp
next
  case (Cons e evs)
  show ?case
  proof (cases "enabled e p")
    case False
    with Cons.IH [OF Cons.prems] show ?thesis by simp
  next
    case True
    obtain p' b' es' where f: "fire e b p = (p', b', es')" by (cases "fire e b p") auto
    from fire_step_range [OF True Cons.prems(1,2), of b] f
    have range: "1 \<le> step p'" "step p' \<le> 3" by simp_all
    from fire_step_cases [OF True f]
    have sub: "subseq [1..step p'] (seen @ [step p'])"
      using subseq_upto_step [OF Cons.prems(3) Cons.prems(1)] by auto
    have eff: "es @ es' = [] \<or> subseq [1, 2, 3] (seen @ [step p'])"
    proof (cases "es' = []")
      case True
      with Cons.prems(4) show ?thesis by (auto intro: subseq_snoc)
    next
      case False
      with fire_step_cases [OF True f] have "\<not> step p < 3" by auto
      with Cons.prems(2) have "step p = 3" by simp
      with Cons.prems(3) have "subseq [1, 2, 3] seen" by (simp add: upto_1_3)
      then show ?thesis by (auto intro: subseq_snoc)
    qed
    from Cons.IH [OF range sub eff] True f show ?thesis by simp
  qed
qed

lemma controls_steps: "{s. controls s \<noteq> []} = {1, 2, 3}"
  by (auto simp add: controls_def)

lemma getField_determines:
  assumes "list_all (\<lambda>k. getField k fd = getField k fd') fieldNames"
  shows "fd = fd'"
  using assms by (cases fd, cases fd') (simp add: fieldNames_def getField_def)

lemma controls_fields: "set (concat (map controls [1, 2, 3])) = set fieldNames"
  by (auto simp add: controls_def fieldNames_def)

lemma fields_six: "length fieldNames = 6 \<and> distinct fieldNames"
  by (simp add: fieldNames_def)

lemma gathered_six: "card (set (concat (map controls [1, 2, 3]))) = 6"
proof -
  have "card (set fieldNames) = length fieldNames"
    using fields_six by (simp add: distinct_card)
  then show ?thesis using fields_six by (simp only: controls_fields)
qed

lemma input_edits_field:
  assumes "k \<in> set fieldNames" and "k \<noteq> ''interests''"
  shows "getField k (handleInputChange k v fd) = Some (Str v)"
    and "k' \<noteq> k \<Longrightarrow> getField k' (handleInputChange k v fd) = getField k' fd"
  using assms by (auto simp add: fieldNames_def getField_def handleInputChange_def)

lemma toggle_edits_interests:
  "getField ''interests'' (handleInterestToggle i fd) \<noteq> getField ''interests'' fd"
  and "k' \<noteq> ''interests'' \<Longrightarrow> getField k' (handleInterestToggle i fd) = getField k' fd"
proof -
  have "interests (handleInterestToggle i fd) \<noteq> interests fd"
  proof
    assume "interests (handleInterestToggle i fd) = interests fd"
    then have "i \<in> set (interests (handleInterestToggle i fd)) \<longleftrightarrow> i \<in> set (interests fd)"
      by simp
    then show False by (simp add: toggle_interests split: if_splits)
  qed
  then show "getField ''interests'' (handleInterestToggle i fd) \<noteq> getField ''interests'' fd"
    by (simp add: getField_def)
  show "k' \<noteq> ''interests'' \<Longrightarrow> getField k' (handleInterestToggle i fd) = getField k' fd"
    by (simp add: getField_def handleInterestToggle_def)
qed

lemma three_submits:
  "fire (Submit r) b initialPage = (initialPage\<lparr>step := 2\<rparr>, b, [])"
  "fire (Submit r) b (initialPage\<lparr>step := 2\<rparr>) = (initialPage\<lparr>step := 3\<rparr>, b, [])"
  "step (fst (fire (Submit r) b (initialPage\<lparr>step := 3\<rparr>))) = 3"
  "GetUser \<in> set (snd (snd (fire (Submit r) b (initialPage\<lparr>step := 3\<rparr>))))"
proof -
  show "fire (Submit r) b initialPage = (initialPage\<lparr>step := 2\<rparr>, b, [])"
    by (simp add: handleSubmit_def initialPage_def)
  show "fire (Submit r) b (initialPage\<lparr>step := 2\<rparr>) = (initialPage\<lparr>step := 3\<rparr>, b, [])"
    by (simp add: handleSubmit_def initialPage_def)
  show "step (fst (fire (Submit r) b (initialPage\<lparr>step := 3\<rparr>))) = 3"
    by (simp add: handleSubmit_step)
  show "GetUser \<in> set (snd (snd (fire (Submit r) b (initialPage\<lparr>step := 3\<rparr>))))"
    by (simp add: handleSubmit_def trySave_def Let_def
          split: awaited.splits option.splits thrown.splits)
qed

lemma run_from_initial:
  "case run evs b initialPage [1] [] of (p', b', seen, es) \<Rightarrow> es = [] \<or> subseq [1, 2, 3] seen"
proof -
  have "subseq [1..step initialPage] [1]" by (simp add: initialPage_def upto.simps)
  then show ?thesis
    using run_subseq [of initialPage "[1]" "[]" evs b] by (simp add: initialPage_def)
qed

text \<open>
  C2, as the code has it. The form state has exactly six fields, all entered by the user:
  the six keys of \<open>FormData\<close> are distinct, they are the fields edited by the controls of
  the three steps, two form states that agree on them are equal, and each is changed by
  its control. The form has exactly three steps: only steps 1, 2 and 3 render controls,
  submit moves the fresh page from step 1 to 2 and from 2 to 3 without calling any
  service, the third submit stays at step 3 and runs the final submission, and in every
  run from the fresh page that has called a service the page has been at steps 1, 2 and
  3, in this order.
\<close>

theorem C2_fields_and_steps_amended:
  "length fieldNames = 6 \<and> distinct fieldNames
   \<and> set (concat (map controls [1, 2, 3])) = set fieldNames
   \<and> (list_all (\<lambda>k. getField k fd = getField k fd') fieldNames \<longrightarrow> fd = fd')
   \<and> (\<forall>k \<in> set fieldNames - {''interests''}. getField k (handleInputChange k v fd) = Some (Str v))
   \<and> getField ''interests'' (handleInterestToggle i fd) \<noteq> getField ''interests'' fd
   \<and> {s. controls s \<noteq> []} = {1, 2, 3}
   \<and> fire (Submit r) b initialPage = (initialPage\<lparr>step := 2\<rparr>, b, [])
   \<and> fire (Submit r) b (initialPage\<lparr>step := 2\<rparr>) = (initialPage\<lparr>step := 3\<rparr>, b, [])
   \<and> step (fst (fire (Submit r) b (initialPage\<lparr>step := 3\<rparr>))) = 3
   \<and> GetUser \<in> set (snd (snd (fire (Submit r) b (initialPage\<lparr>step := 3\<rparr>))))
   \<and> (case run evs b initialPage [1] [] of (p', b', seen, es) \<Rightarrow>
         es = [] \<or> subseq [1, 2, 3] seen)"
proof -
  have edits: "\<forall>k \<in> set fieldNames - {''interests''}.
      getField k (handleInputChange k v fd) = Some (Str v)"
    using input_edits_field(1) by blast
  have det: "list_all (\<lambda>k. getField k fd = getField k fd') fieldNames \<longrightarrow> fd = fd'"
    using getField_determines by blast
  from fields_six controls_fields det edits toggle_edits_interests(1) [of i fd] controls_steps
    three_submits [of r b] run_from_initial [of evs b]
  show ?thesis by blast
qed

theorem C2_fields_and_steps_amended_witness:
  "list_all (\<lambda>k. getField k initialFormData = getField k initialFormData) fieldNames
   \<and> length fieldNames = 6
   \<and> getField ''city'' (handleInputChange ''city'' ''Provo'' initialFormData) = Some (Str ''Provo'')
   \<and> snd (snd (snd (run [Submit allSucceed, Submit allSucceed, Submit allSucceed]
        exampleBackend initialPage [1] []))) \<noteq> []
   \<and> subseq [1, 2, 3] (fst (snd (snd (run [Submit allSucceed, Submit allSucceed, Submit allSucceed]
        exampleBackend initialPage [1] []))))"
proof -
  have h1: "list_all (\<lambda>k. getField k initialFormData = getField k initialFormData) fieldNames"
    by (simp add: list_all_iff)
  have h2: "''city'' \<in> set fieldNames - {''interests''}" by (simp add: fieldNames_def)
  have h3: "run [Submit allSucceed, Submit allSucceed, Submit allSucceed]
        exampleBackend initialPage [1] [] =
      (case handleSubmit allSucceed exampleBackend finalPage of (p', b', es') \<Rightarrow>
         (p', b', [1, 2, 3, step p'], es'))"
    by (simp add: handleSubmit_next initialPage_def finalPage_def)
  have h4: "snd (snd (handleSubmit allSucceed exampleBackend finalPage)) \<noteq> []"
    by (simp add: handleSubmit_def trySave_def getUser_def allSucceed_def exampleBackend_def
        finalPage_def initialPage_def Let_def)
  from C2_fields_and_steps_amended [of initialFormData initialFormData "''Provo''" "''events''"
      allSucceed exampleBackend "[Submit allSucceed, Submit allSucceed, Submit allSucceed]"]
    h1 h2 h3 h4
  show ?thesis by (auto simp add: case_prod_beta)
qed

text \<open>
  C2 as the spec words it fails in the number of fields: the state holds six, not four;
  the community type and the interests are entered by the user as well.
\<close>

theorem C2_four_fields_counterexample:
  "length fieldNames = 6 \<and> length fieldNames \<noteq> 4
   \<and> card (set (concat (map controls [1, 2, 3]))) \<noteq> 4
   \<and> communityType (handleInputChange ''communityType'' ''rural'' initialFormData) \<noteq>
       communityType initialFormData
   \<and> interests (handleInterestToggle ''events'' initialFormData) \<noteq> interests initialFormData"
  using gathered_six
  by (simp add: fieldNames_def handleInputChange_def handleInterestToggle_def initialFormData_def)

section \<open>The geocoding request of the map component\<close>

lemma mount_eq:
  "mount token pr =
     \<lparr> mapError = None,
       theMap = Some (addControl ''GeolocateControl'' (addControl ''NavigationControl'' newMap)),
       fetches = [(fullAddress pr, queryParams token pr)], pending = [pr], deps = pr \<rparr>"
  by (simp add: mount_def runEffect_def mapContainerCurrent_def render_def)

lemma geocodeDone_keeps:
  "fetches (geocodeDone pr outcome w) = fetches w"
  "deps (geocodeDone pr outcome w) = deps w"
  "pending (geocodeDone pr outcome w) = pending w"
  by (simp_all add: geocodeDone_def Let_def split: awaited.splits option.splits list.splits)

lemma fireMap_fixed:
  assumes "fixedProps pr ev" and "deps w = pr"
  shows "fetches (fireMap token ev w) = fetches w" and "deps (fireMap token ev w) = pr"
  using assms
  by (cases ev; simp add: geocodeDone_keeps split: list.splits option.splits)+

lemma runMap_fixed:
  assumes "list_all (fixedProps pr) evs" and "deps w = pr"
  shows "fetches (runMap token evs w) = fetches w \<and> deps (runMap token evs w) = pr"
  using assms
proof (induction evs arbitrary: w)
  case Nil
  then show ?case by simp
next
  case (Cons ev evs)
  then have "fixedProps pr ev" and rest: "list_all (fixedProps pr) evs" by simp_all
  from fireMap_fixed [OF \<open>fixedProps pr ev\<close> Cons.prems(2), of token]
    Cons.IH [OF rest, of "fireMap token ev w"]
  show ?case by simp
qed

lemma fireMap_waiting:
  assumes "fixedProps pr ev" and "noResponse ev" and "deps w = pr"
  shows "pending (fireMap token ev w) = pending w" and "mapError (fireMap token ev w) = mapError w"
  using assms by (cases ev; simp split: option.splits)+

lemma runMap_waiting:
  assumes "list_all (fixedProps pr) evs" and "list_all noResponse evs" and "deps w = pr"
  shows "pending (runMap token evs w) = pending w \<and> mapError (runMap token evs w) = mapError w
       \<and> deps (runMap token evs w) = pr"
  using assms
proof (induction evs arbitrary: w)
  case Nil
  then show ?case by simp
next
  case (Cons ev evs)
  then have a: "fixedProps pr ev" "noResponse ev"
    and rest: "list_all (fixedProps pr) evs" "list_all noResponse evs" by simp_all
  have d: "deps (fireMap token ev w) = pr"
    using fireMap_fixed(2) [OF a(1) Cons.prems(3)] .
  from fireMap_waiting [OF a Cons.prems(3), of token] Cons.IH [OF rest d]
  show ?case by simp
qed

lemma fireMap_settled:
  assumes "fixedProps pr ev" and "deps w = pr" and "pending w = []"
  shows "pending (fireMap token ev w) = []" and "mapError (fireMap token ev w) = mapError w"
  using assms by (cases ev; simp split: option.splits)+

lemma runMap_settled:
  assumes "list_all (fixedProps pr) evs" and "deps w = pr" and "pending w = []"
  shows "mapError (runMap token evs w) = mapError w"
  using assms
proof (induction evs arbitrary: w)
  case Nil
  then show ?case by simp
next
  case (Cons ev evs)
  then have a: "fixedProps pr ev" and rest: "list_all (fixedProps pr) evs" by simp_all
  have d: "deps (fireMap token ev w) = pr"
    using fireMap_fixed(2) [OF a Cons.prems(2)] .
  from fireMap_settled [OF a Cons.prems(2,3), of token] Cons.IH [OF rest d]
  show ?case by simp
qed

lemma runMap_append: "runMap token (evs1 @ evs2) w = runMap token evs2 (runMap token evs1 w)"
  by (induction evs1 arbitrary: w) simp_all

lemma geocodeDone_failure:
  assumes "isFailure outcome"
  shows "mapError (geocodeDone pr outcome w) = Some ''Failed to load map data''
       \<or> mapError (geocodeDone pr outcome w) = Some ''Could not find the specified location''"
  using assms by (cases outcome rule: isFailure.cases) (simp_all add: geocodeDone_def)

lemma cleanup_keeps:
  "mapError (cleanup w) = mapError w" "fetches (cleanup w) = fetches w"
  "pending (cleanup w) = pending w"
  by (simp_all add: cleanup_def Let_def split: option.splits)

lemma rerender_changed:
  assumes "pr' \<noteq> pr"
  shows "fetches (fireMap token (Rerender pr') (mount token pr)) =
           [(fullAddress pr, queryParams token pr), (fullAddress pr', queryParams token pr')]"
proof -
  have "mapError (cleanup (mount token pr)) = None" "fetches (cleanup (mount token pr)) =
      [(fullAddress pr, queryParams token pr)]"
    by (simp_all add: cleanup_keeps mount_eq)
  then show ?thesis
    using assms by (simp add: mount_eq runEffect_def mapContainerCurrent_def render_def)
qed

text \<open>
  C4, as the code has it. The effect depends on all four props, \<open>address\<close>, \<open>city\<close>,
  \<open>state\<close> and \<open>neighborhoodName\<close>. While all four stay as they were at the mount, the
  component sends exactly one geocoding request, at the mount, and the number stays one
  through every later event: renderings by the parent, the load event, and the response,
  also a failed one, after which nothing is sent again. After a failed response (a
  rejection or no feature) the component renders the alert with a non-empty error string
  instead of the map container, and keeps doing so. A rendering with any changed prop
  while the map is shown runs the effect again and sends a second request.
\<close>

theorem C4_geocode_once_amended:
  assumes "list_all (fixedProps pr) evs1" and "list_all noResponse evs1"
    and "list_all (fixedProps pr) evs2"
  shows "fetches (mount token pr) = [(fullAddress pr, queryParams token pr)]
       \<and> fetches (runMap token evs1 (mount token pr)) = [(fullAddress pr, queryParams token pr)]
       \<and> fetches (runMap token (evs1 @ GeocodeSettles outcome # evs2) (mount token pr)) =
           [(fullAddress pr, queryParams token pr)]
       \<and> (isFailure outcome \<longrightarrow>
            (\<exists>m. m \<noteq> '''' \<and>
               render (runMap token (evs1 @ GeocodeSettles outcome # evs2) (mount token pr)) = ErrorView m))
       \<and> (\<forall>pr'. pr' \<noteq> pr \<longrightarrow>
            fetches (fireMap token (Rerender pr') (mount token pr)) =
              [(fullAddress pr, queryParams token pr), (fullAddress pr', queryParams token pr')])"
proof -
  define w0 where "w0 = mount token pr"
  define w1 where "w1 = runMap token evs1 w0"
  define w2 where "w2 = fireMap token (GeocodeSettles outcome) w1"
  define w3 where "w3 = runMap token evs2 w2"
  have d0: "deps w0 = pr" and f0: "fetches w0 = [(fullAddress pr, queryParams token pr)]"
    and p0: "pending w0 = [pr]"
    by (simp_all add: w0_def mount_eq)
  have p1: "pending w1 = [pr] \<and> deps w1 = pr"
    using runMap_waiting [OF assms(1,2) d0, of token] p0 by (simp add: w1_def)
  have f1: "fetches w1 = [(fullAddress pr, queryParams token pr)]"
    using runMap_fixed [OF assms(1) d0, of token] f0 by (simp add: w1_def)
  have w2: "w2 = geocodeDone pr outcome (w1\<lparr>pending := []\<rparr>)"
    using p1 by (simp add: w2_def)
  have d2: "deps w2 = pr" and p2: "pending w2 = []"
    and f2: "fetches w2 = [(fullAddress pr, queryParams token pr)]"
    using p1 f1 by (simp_all add: w2 geocodeDone_keeps)
  have whole: "runMap token (evs1 @ GeocodeSettles outcome # evs2) (mount token pr) = w3"
    by (simp add: runMap_append w3_def w2_def w1_def w0_def)
  have f3: "fetches w3 = [(fullAddress pr, queryParams token pr)]"
    using runMap_fixed [OF assms(3) d2, of token] f2 by (simp add: w3_def)
  have e3: "mapError w3 = mapError w2"
    using runMap_settled [OF assms(3) d2 p2, of token] by (simp add: w3_def)
  have fail: "isFailure outcome \<longrightarrow> (\<exists>m. m \<noteq> '''' \<and> render w3 = ErrorView m)"
  proof
    assume "isFailure outcome"
    from geocodeDone_failure [OF this, of pr "w1\<lparr>pending := []\<rparr>"]
    have "mapError w2 = Some ''Failed to load map data''
        \<or> mapError w2 = Some ''Could not find the specified location''"
      by (simp only: w2)
    with e3 show "\<exists>m. m \<noteq> '''' \<and> render w3 = ErrorView m"
      by (auto simp add: render_def)
  qed
  have again: "\<forall>pr'. pr' \<noteq> pr \<longrightarrow>
      fetches (fireMap token (Rerender pr') (mount token pr)) =
        [(fullAddress pr, queryParams token pr), (fullAddress pr', queryParams token pr')]"
    using rerender_changed by blast
  have first: "fetches (mount token pr) = [(fullAddress pr, queryParams token pr)]
       \<and> fetches (runMap token evs1 (mount token pr)) = [(fullAddress pr, queryParams token pr)]
       \<and> fetches (runMap token (evs1 @ GeocodeSettles outcome # evs2) (mount token pr)) =
           [(fullAddress pr, queryParams token pr)]
       \<and> (isFailure outcome \<longrightarrow>
            (\<exists>m. m \<noteq> '''' \<and>
               render (runMap token (evs1 @ GeocodeSettles outcome # evs2) (mount token pr)) = ErrorView m))"
    using f0 f1 f3 fail by (simp only: whole) (simp add: w0_def w1_def)
  from first again show ?thesis by (intro conjI) (elim conjE, assumption)+
qed

theorem C4_geocode_once_amended_witness:
  "list_all (fixedProps exampleProps) [MapLoad] \<and> list_all noResponse [MapLoad]
   \<and> list_all (fixedProps exampleProps) [Rerender exampleProps, MapLoad]
   \<and> isFailure (Rejects OtherValue)
   \<and> length (fetches (runMap ''pk'' ([MapLoad] @ GeocodeSettles (Rejects OtherValue) #
        [Rerender exampleProps, MapLoad]) (mount ''pk'' exampleProps))) = 1
   \<and> render (runMap ''pk'' ([MapLoad] @ GeocodeSettles (Rejects OtherValue) #
        [Rerender exampleProps, MapLoad]) (mount ''pk'' exampleProps)) =
       ErrorView ''Failed to load map data''
   \<and> renamedProps \<noteq> exampleProps
   \<and> length (fetches (fireMap ''pk'' (Rerender renamedProps) (mount ''pk'' exampleProps))) = 2"
proof -
  have h1: "list_all (fixedProps exampleProps) [MapLoad]" by simp
  have h2: "list_all noResponse [MapLoad]" by simp
  have h3: "list_all (fixedProps exampleProps) [Rerender exampleProps, MapLoad]" by simp
  have h4: "isFailure (Rejects OtherValue)" by simp
  have h5: "mapError (runMap ''pk'' ([MapLoad] @ GeocodeSettles (Rejects OtherValue) #
        [Rerender exampleProps, MapLoad]) (mount ''pk'' exampleProps)) =
      Some ''Failed to load map data''"
    by (simp add: mount_eq geocodeDone_def addControl_def newMap_def)
  have h6: "renamedProps \<noteq> exampleProps"
    by (simp add: renamedProps_def exampleProps_def)
  note inst = C4_geocode_once_amended [OF h1 h2 h3, of "''pk''" "Rejects OtherValue"]
  have a: "fetches (runMap ''pk'' ([MapLoad] @ GeocodeSettles (Rejects OtherValue) #
        [Rerender exampleProps, MapLoad]) (mount ''pk'' exampleProps)) =
      [(fullAddress exampleProps, queryParams ''pk'' exampleProps)]"
    by (rule inst [THEN conjunct2, THEN conjunct2, THEN conjunct1])
  have "\<forall>pr'. pr' \<noteq> exampleProps \<longrightarrow>
      fetches (fireMap ''pk'' (Rerender pr') (mount ''pk'' exampleProps)) =
        [(fullAddress exampleProps, queryParams ''pk'' exampleProps),
         (fullAddress pr', queryParams ''pk'' pr')]"
    by (rule inst [THEN conjunct2, THEN conjunct2, THEN conjunct2, THEN conjunct2])
  with h6 have b: "length (fetches (fireMap ''pk'' (Rerender renamedProps) (mount ''pk'' exampleProps))) = 2"
    by simp
  from a b h1 h2 h3 h4 h5 h6 show ?thesis by (simp add: render_def)
qed

text \<open>
  C4 as the spec words it, with only the address fixed, fails: a rendering with another
  \<open>neighborhoodName\<close> and the same address, city and state runs the effect again, and the
  same request is sent a second time within one mount.
\<close>

theorem C4_fixed_address_counterexample:
  "props_address renamedProps = props_address exampleProps
   \<and> props_city renamedProps = props_city exampleProps
   \<and> props_state renamedProps = props_state exampleProps
   \<and> fetches (runMap ''pk'' [Rerender renamedProps] (mount ''pk'' exampleProps)) =
       [(''12 Main St, Provo, Utah'', queryParams ''pk'' exampleProps),
        (''12 Main St, Provo, Utah'', queryParams ''pk'' exampleProps)]
   \<and> length (fetches (runMap ''pk'' [Rerender renamedProps] (mount ''pk'' exampleProps))) = 2"
proof -
  have ne: "renamedProps \<noteq> exampleProps"
    by (simp add: renamedProps_def exampleProps_def)
  have same: "fullAddress renamedProps = ''12 Main St, Provo, Utah''"
    "fullAddress exampleProps = ''12 Main St, Provo, Utah''"
    "queryParams ''pk'' renamedProps = queryParams ''pk'' exampleProps"
    by (simp_all add: fullAddress_def queryParams_def truthy_def renamedProps_def exampleProps_def)
  from rerender_changed [OF ne, of "''pk''"] same
  show ?thesis by (simp add: renamedProps_def exampleProps_def)
qed


section \<open>Marker and boundary layers\<close>

lemma toLowerCase_examples:
  "toLowerCase ''PROVO'' = ''provo''" "toLowerCase ''Provo'' = ''provo''"
  "toLowerCase ''Utah'' = ''utah''" "toLowerCase ''utah'' = ''utah''"
  "toLowerCase ''Orem'' = ''orem''"
  by code_simp+

lemma interestOptions_eq:
  "interestOptions = [''events'', ''safety'', ''environment'', ''education'', ''sports'',
                      ''arts'', ''food'', ''business'']"
  by code_simp

lemma example_relevance: "isRelevant exampleProps provo" "\<not> isRelevant exampleProps orem"
  by (simp_all add: isRelevant_def featureText_def exampleProps_def provo_def orem_def
        toLowerCase_examples)

lemma example_relevant: "relevantFeature exampleProps orem [provo] = provo"
  by (simp add: relevantFeature_def example_relevance)

text \<open>
  The relevant feature is the first feature that matches the city and the state, or the
  first feature of the response when none matches.
\<close>

lemma relevantFeature_spec:
  "(\<exists>i < length (f # fs). relevantFeature pr f fs = (f # fs) ! i \<and> isRelevant pr ((f # fs) ! i)
        \<and> (\<forall>j < i. \<not> isRelevant pr ((f # fs) ! j)))
   \<or> (relevantFeature pr f fs = f \<and> (\<forall>g \<in> set (f # fs). \<not> isRelevant pr g))"
proof (cases "find (isRelevant pr) (f # fs)")
  case None
  then have "\<forall>g \<in> set (f # fs). \<not> isRelevant pr g"
    by (simp only: find_None_iff) blast
  with None show ?thesis by (simp add: relevantFeature_def)
next
  case (Some g)
  then obtain i where "i < length (f # fs)" "isRelevant pr ((f # fs) ! i)" "g = (f # fs) ! i"
    "\<forall>j < i. \<not> isRelevant pr ((f # fs) ! j)"
    by (auto simp only: find_Some_iff)
  with Some show ?thesis by (auto simp add: relevantFeature_def)
qed

text \<open>
  The response handled first, the load event after it: marker, camera, the circle layer
  and the four boundary layers. In the other order: marker and camera, a listener that
  is never called, and no layer, whatever follows under the same props.
\<close>

lemma response_then_load:
  "\<exists>m. theMap (runMap token [GeocodeSettles (Resolves (Some (f # fs))), MapLoad] (mount token pr)) = Some m
     \<and> markers m = [(center (relevantFeature pr f fs), popupHTML pr)]
     \<and> map_center m = center (relevantFeature pr f fs) \<and> map_zoom m = 15
     \<and> layers m = neighborhoodFill # adminLayers
     \<and> filter (\<lambda>l. admin_level l \<noteq> None) (layers m) = adminLayers
     \<and> map fst (sources m) = [''neighborhood'', ''admin-boundaries'']"
  by (simp add: mount_eq geocodeDone_def Let_def onLoad_def addMarker_def flyTo_def addControl_def
        newMap_def loadHandler_def getSource_def addSource_def addLayer_def adminLayers_def
        neighborhoodFill_def)

lemma load_then_response:
  "\<exists>m. theMap (runMap token [MapLoad, GeocodeSettles (Resolves (Some (f # fs)))] (mount token pr)) = Some m
     \<and> markers m = [(center (relevantFeature pr f fs), popupHTML pr)]
     \<and> map_center m = center (relevantFeature pr f fs) \<and> map_zoom m = 15
     \<and> layers m = [] \<and> sources m = []
     \<and> loadListeners m = [center (relevantFeature pr f fs)] \<and> loaded m"
  by (simp add: mount_eq geocodeDone_def Let_def onLoad_def addMarker_def flyTo_def addControl_def
        newMap_def)

lemma fireMap_after_load:
  assumes "fixedProps pr ev" and "deps w = pr" and "pending w = []"
    and "theMap w = Some m" and "loaded m"
  shows "fireMap token ev w = w"
  using assms by (cases ev) simp_all

lemma runMap_after_load:
  assumes "list_all (fixedProps pr) evs" and "deps w = pr" and "pending w = []"
    and "theMap w = Some m" and "loaded m"
  shows "runMap token evs w = w"
  using assms
proof (induction evs)
  case Nil
  then show ?case by simp
next
  case (Cons ev evs)
  then have "fixedProps pr ev" by simp
  from fireMap_after_load [OF this Cons.prems(2-5)] Cons show ?case by simp
qed

lemma load_first_no_layers:
  assumes "list_all (fixedProps pr) evs"
  shows "map_option layers (theMap (runMap token
           (MapLoad # GeocodeSettles (Resolves (Some (f # fs))) # evs) (mount token pr))) = Some []"
proof -
  define w where "w = runMap token [MapLoad, GeocodeSettles (Resolves (Some (f # fs)))] (mount token pr)"
  from load_then_response [of token f fs pr]
  obtain m where m: "theMap w = Some m" "layers m = []" "loaded m"
    by (auto simp only: w_def)
  have d: "deps w = pr" and p: "pending w = []"
    by (simp_all add: w_def mount_eq geocodeDone_keeps)
  have "runMap token (MapLoad # GeocodeSettles (Resolves (Some (f # fs))) # evs) (mount token pr) =
      runMap token evs w"
    by (simp add: w_def)
  also have "\<dots> = w"
    using runMap_after_load [OF assms d p m(1) m(3)] .
  finally show ?thesis using m by simp
qed

text \<open>
  C5. For every geocoding response with at least one feature the component is to draw a
  marker at the center of the relevant feature and to add the fill and line layers for
  the admin levels 8 and 6. The marker is drawn in every case, and the layers are added
  when the response is handled before the map's load event (\<open>response_then_load\<close>).
  But the handler that adds them is registered only once the response is there: when
  the load event has fired before, it never runs (\<open>load_first_no_layers\<close>). Here the map loads, the response
  \<open>[orem, provo]\<close> for Provo, Utah arrives, and a further load event changes nothing: the
  marker stands at the center of \<open>provo\<close> and the map has no layer.
\<close>

theorem C5_load_before_response:
  "map_option markers (theMap (runMap ''pk''
       [MapLoad, GeocodeSettles (Resolves (Some [orem, provo])), MapLoad] (mount ''pk'' exampleProps))) =
     Some [(center provo, popupHTML exampleProps)]
   \<and> map_option layers (theMap (runMap ''pk''
       [MapLoad, GeocodeSettles (Resolves (Some [orem, provo])), MapLoad] (mount ''pk'' exampleProps))) =
     Some []"
  by (simp add: mount_eq geocodeDone_def Let_def onLoad_def addMarker_def flyTo_def addControl_def
        newMap_def example_relevant)

text \<open>The same response handled before the load event: the layers are there.\<close>

lemma response_before_load_example:
  "map_option layers (theMap (runMap ''pk''
       [GeocodeSettles (Resolves (Some [orem, provo])), MapLoad] (mount ''pk'' exampleProps))) =
     Some (neighborhoodFill # adminLayers)
  \<and> map_option markers (theMap (runMap ''pk''
       [GeocodeSettles (Resolves (Some [orem, provo])), MapLoad] (mount ''pk'' exampleProps))) =
     Some [(center provo, popupHTML exampleProps)]"
  by (simp add: mount_eq geocodeDone_def Let_def onLoad_def addMarker_def flyTo_def addControl_def
        newMap_def loadHandler_def getSource_def addSource_def addLayer_def adminLayers_def
        neighborhoodFill_def example_relevant)

section \<open>What the form collects\<close>

lemma handleInputChange_other:
  "k \<noteq> name \<Longrightarrow> getField k (handleInputChange name v fd) = getField k fd"
  by (auto simp add: getField_def handleInputChange_def)

lemma handleInterestToggle_other:
  "k \<noteq> ''interests'' \<Longrightarrow> getField k (handleInterestToggle i fd) = getField k fd"
  by (simp add: getField_def handleInterestToggle_def)

lemma handleSubmit_formData: "formData (fst (handleSubmit r b p)) = formData p"
  by (simp add: handleSubmit_def Let_def split: prod.splits option.splits thrown.splits)

text \<open>
  What an event of the form collects: the fields whose value it changes. An enabled event
  changes only fields whose control is rendered at the current step, and every rendered
  control has an enabled event that changes its field.
\<close>

lemma fire_changes_control:
  assumes "enabled e p"
    and "getField k (formData (fst (fire e b p))) \<noteq> getField k (formData p)"
  shows "k \<in> set (controls (step p))"
proof (cases e)
  case (InputChange name v)
  with assms(2) have "k = name" using handleInputChange_other [of k name v "formData p"] by auto
  with assms(1) InputChange show ?thesis by simp
next
  case (InterestToggle i)
  with assms(2) have "k = ''interests''"
    using handleInterestToggle_other [of k i "formData p"] by auto
  with assms(1) InterestToggle show ?thesis by (simp add: controls_def)
next
  case (Submit r)
  with assms(2) show ?thesis by (simp add: handleSubmit_formData)
next
  case Back
  with assms(2) show ?thesis by simp
qed

lemma events_in_options: "''events'' \<in> set interestOptions"
  by (simp add: interestOptions_eq)

lemma control_is_used:
  assumes "k \<in> set (controls s)"
  shows "\<exists>e p b. step p = s \<and> enabled e p
           \<and> getField k (formData (fst (fire e b p))) \<noteq> getField k (formData p)"
proof (cases "k = ''interests''")
  case True
  with assms have s: "s = 3" by (auto simp add: controls_def split: if_splits)
  have "step (initialPage\<lparr>step := 3\<rparr>) = 3
      \<and> enabled (InterestToggle ''events'') (initialPage\<lparr>step := 3\<rparr>)
      \<and> getField ''interests''
           (formData (fst (fire (InterestToggle ''events'') exampleBackend (initialPage\<lparr>step := 3\<rparr>)))) \<noteq>
         getField ''interests'' (formData (initialPage\<lparr>step := 3\<rparr>))"
    using events_in_options toggle_edits_interests by simp
  with True s show ?thesis by blast
next
  case False
  have "step (initialPage\<lparr>step := s\<rparr>) = s" by simp
  moreover have "enabled (InputChange k ''x'') (initialPage\<lparr>step := s\<rparr>)"
    using assms False by simp
  moreover have "getField k
        (formData (fst (fire (InputChange k ''x'') exampleBackend (initialPage\<lparr>step := s\<rparr>)))) \<noteq>
      getField k (formData (initialPage\<lparr>step := s\<rparr>))"
    using assms False
    by (auto simp add: controls_def getField_def handleInputChange_def initialPage_def
          initialFormData_def split: if_splits)
  ultimately show ?thesis by blast
qed

lemma collected_at_step:
  "{k. \<exists>e p b. step p = s \<and> enabled e p
        \<and> getField k (formData (fst (fire e b p))) \<noteq> getField k (formData p)} = set (controls s)"
  using fire_changes_control control_is_used by blast

text \<open>
  A whole run of the form: the name at step 1, four fields at step 2, an interest at
  step 3; the final submission sends what was entered.
\<close>

lemma full_run:
  "run [InputChange ''neighborhoodName'' n, Submit allSucceed,
        InputChange ''address'' a, InputChange ''city'' c, InputChange ''state'' st,
        InputChange ''communityType'' t, Submit allSucceed,
        InterestToggle ''events'', Submit allSucceed]
       exampleBackend initialPage [1] [] =
     (initialPage\<lparr>step := 3,
        formData := \<lparr>neighborhoodName = n, address = a, city = c, state = st,
                     interests = [''events''], communityType = t\<rparr>\<rparr>,
      exampleBackend\<lparr>
        user_profiles := [''u1'' \<mapsto> profileRow (User ''u1'')
           \<lparr>neighborhoodName = n, address = a, city = c, state = st,
             interests = [''events''], communityType = t\<rparr> (exampleClock 0) (exampleClock 1)],
        neighborhoods := [''u1'' \<mapsto> neighborhoodRow (User ''u1'')
           \<lparr>neighborhoodName = n, address = a, city = c, state = st,
             interests = [''events''], communityType = t\<rparr> (exampleClock 2) (exampleClock 3)]\<rparr>,
      [1, 1, 2, 2, 2, 2, 2, 3, 3, 3],
      [GetUser, ConsoleLog ''Saving profile with data:'',
       Upsert ''user_profiles'' (profileRow (User ''u1'')
           \<lparr>neighborhoodName = n, address = a, city = c, state = st,
             interests = [''events''], communityType = t\<rparr> (exampleClock 0) (exampleClock 1)),
       Upsert ''neighborhoods'' (neighborhoodRow (User ''u1'')
           \<lparr>neighborhoodName = n, address = a, city = c, state = st,
             interests = [''events''], communityType = t\<rparr> (exampleClock 2) (exampleClock 3)),
       ConsoleLog ''Successfully saved data, redirecting to dashboard...'',
       RouterPush ''/dashboard''])"
  by (simp add: events_in_options controls_def handleSubmit_def trySave_def getUser_def
        handleInputChange_def handleInterestToggle_def allSucceed_def exampleBackend_def
        initialPage_def initialFormData_def Let_def)

lemma controls_subset: "set (controls s) \<subseteq> set fieldNames"
  by (auto simp add: controls_def fieldNames_def)

lemma field_has_control: "k \<in> set fieldNames \<Longrightarrow> \<exists>s. k \<in> set (controls s)"
  using controls_fields by auto

lemma collected_all:
  "{k. \<exists>e p b. enabled e p
        \<and> getField k (formData (fst (fire e b p))) \<noteq> getField k (formData p)} = set fieldNames"
proof (rule set_eqI)
  fix k
  show "k \<in> {k. \<exists>e p b. enabled e p
        \<and> getField k (formData (fst (fire e b p))) \<noteq> getField k (formData p)}
      \<longleftrightarrow> k \<in> set fieldNames"
  proof
    assume "k \<in> {k. \<exists>e p b. enabled e p
        \<and> getField k (formData (fst (fire e b p))) \<noteq> getField k (formData p)}"
    then obtain e p b where "enabled e p"
      and "getField k (formData (fst (fire e b p))) \<noteq> getField k (formData p)"
      by blast
    then have "k \<in> set (controls (step p))" by (rule fire_changes_control)
    with controls_subset show "k \<in> set fieldNames" by blast
  next
    assume "k \<in> set fieldNames"
    then obtain s where "k \<in> set (controls s)" using field_has_control by blast
    from control_is_used [OF this]
    show "k \<in> {k. \<exists>e p b. enabled e p
        \<and> getField k (formData (fst (fire e b p))) \<noteq> getField k (formData p)}"
      by blast
  qed
qed

text \<open>
  C7. The form collects six fields before submission, a number between four and six: at
  each step the fields that an enabled event of the form can change are those of the
  step's controls; over all steps they are the six fields of \<open>FormData\<close>; and in a run
  through the three steps the values entered for the six fields are the ones the final
  submission sends, all six in the row for \<open>user_profiles\<close> and four of them in the row
  for \<open>neighborhoods\<close>.
\<close>

theorem C7_fields_gathered:
  "(\<forall>s. {k. \<exists>e p b. step p = s \<and> enabled e p
            \<and> getField k (formData (fst (fire e b p))) \<noteq> getField k (formData p)} =
         set (controls s))
   \<and> {k. \<exists>e p b. enabled e p
            \<and> getField k (formData (fst (fire e b p))) \<noteq> getField k (formData p)} = set fieldNames
   \<and> card {k. \<exists>e p b. enabled e p
            \<and> getField k (formData (fst (fire e b p))) \<noteq> getField k (formData p)} = 6
   \<and> 4 \<le> card {k. \<exists>e p b. enabled e p
            \<and> getField k (formData (fst (fire e b p))) \<noteq> getField k (formData p)}
   \<and> card {k. \<exists>e p b. enabled e p
            \<and> getField k (formData (fst (fire e b p))) \<noteq> getField k (formData p)} \<le> 6
   \<and> card (set (concat (map controls [1, 2, 3]))) = 6
   \<and> run [InputChange ''neighborhoodName'' n, Submit allSucceed,
           InputChange ''address'' a, InputChange ''city'' c, InputChange ''state'' st,
           InputChange ''communityType'' t, Submit allSucceed,
           InterestToggle ''events'', Submit allSucceed]
          exampleBackend initialPage [1] [] =
        (initialPage\<lparr>step := 3,
           formData := \<lparr>neighborhoodName = n, address = a, city = c, state = st,
                        interests = [''events''], communityType = t\<rparr>\<rparr>,
         exampleBackend\<lparr>
           user_profiles := [''u1'' \<mapsto> profileRow (User ''u1'')
              \<lparr>neighborhoodName = n, address = a, city = c, state = st,
                interests = [''events''], communityType = t\<rparr> (exampleClock 0) (exampleClock 1)],
           neighborhoods := [''u1'' \<mapsto> neighborhoodRow (User ''u1'')
              \<lparr>neighborhoodName = n, address = a, city = c, state = st,
                interests = [''events''], communityType = t\<rparr> (exampleClock 2) (exampleClock 3)]\<rparr>,
         [1, 1, 2, 2, 2, 2, 2, 3, 3, 3],
         [GetUser, ConsoleLog ''Saving profile with data:'',
          Upsert ''user_profiles'' (profileRow (User ''u1'')
              \<lparr>neighborhoodName = n, address = a, city = c, state = st,
                interests = [''events''], communityType = t\<rparr> (exampleClock 0) (exampleClock 1)),
          Upsert ''neighborhoods'' (neighborhoodRow (User ''u1'')
              \<lparr>neighborhoodName = n, address = a, city = c, state = st,
                interests = [''events''], communityType = t\<rparr> (exampleClock 2) (exampleClock 3)),
          ConsoleLog ''Successfully saved data, redirecting to dashboard...'',
          RouterPush ''/dashboard''])
   \<and> map (\<lambda>k. getField k fd) fieldNames =
       map (map_of (profileRow u fd t1 t2))
         [''neighborhood_name'', ''address'', ''city'', ''state'', ''interests'', ''community_type'']
   \<and> map (\<lambda>k. getField k fd) [''neighborhoodName'', ''address'', ''city'', ''state''] =
       map (map_of (neighborhoodRow u fd t1 t2)) [''name'', ''address'', ''city'', ''state'']"
proof -
  have six: "card (set fieldNames) = 6"
    using fields_six by (simp add: distinct_card)
  have rows: "map (\<lambda>k. getField k fd) fieldNames =
       map (map_of (profileRow u fd t1 t2))
         [''neighborhood_name'', ''address'', ''city'', ''state'', ''interests'', ''community_type'']
   \<and> map (\<lambda>k. getField k fd) [''neighborhoodName'', ''address'', ''city'', ''state''] =
       map (map_of (neighborhoodRow u fd t1 t2)) [''name'', ''address'', ''city'', ''state'']"
    by (simp add: fieldNames_def getField_def profileRow_def neighborhoodRow_def)
  from collected_at_step six gathered_six rows full_run [of n a c st t]
  show ?thesis by (simp only: collected_all) simp
qed

theorem C7_fields_gathered_witness:
  "card {k. \<exists>e p b. enabled e p
            \<and> getField k (formData (fst (fire e b p))) \<noteq> getField k (formData p)} = 6
   \<and> snd (snd (snd (run [InputChange ''neighborhoodName'' ''Maple Grove'', Submit allSucceed,
           InputChange ''address'' ''12 Main St'', InputChange ''city'' ''Provo'',
           InputChange ''state'' ''Utah'', InputChange ''communityType'' ''mixed'',
           Submit allSucceed, InterestToggle ''events'', Submit allSucceed]
          exampleBackend initialPage [1] []))) =
       [GetUser, ConsoleLog ''Saving profile with data:'',
        Upsert ''user_profiles'' (profileRow (User ''u1'')
              \<lparr>neighborhoodName = ''Maple Grove'', address = ''12 Main St'', city = ''Provo'',
                state = ''Utah'', interests = [''events''], communityType = ''mixed''\<rparr>
              (exampleClock 0) (exampleClock 1)),
        Upsert ''neighborhoods'' (neighborhoodRow (User ''u1'')
              \<lparr>neighborhoodName = ''Maple Grove'', address = ''12 Main St'', city = ''Provo'',
                state = ''Utah'', interests = [''events''], communityType = ''mixed''\<rparr>
              (exampleClock 2) (exampleClock 3)),
        ConsoleLog ''Successfully saved data, redirecting to dashboard...'',
        RouterPush ''/dashboard'']"
proof -
  note inst = C7_fields_gathered [of "''Maple Grove''" "''12 Main St''" "''Provo''" "''Utah''" "''mixed''"]
  have count: "card {k. \<exists>e p b. enabled e p
            \<and> getField k (formData (fst (fire e b p))) \<noteq> getField k (formData p)} = 6"
    by (rule inst [THEN conjunct2, THEN conjunct2, THEN conjunct1])
  have whole: "run [InputChange ''neighborhoodName'' ''Maple Grove'', Submit allSucceed,
           InputChange ''address'' ''12 Main St'', InputChange ''city'' ''Provo'',
           InputChange ''state'' ''Utah'', InputChange ''communityType'' ''mixed'',
           Submit allSucceed, InterestToggle ''events'', Submit allSucceed]
          exampleBackend initialPage [1] [] =
        (initialPage\<lparr>step := 3,
           formData := \<lparr>neighborhoodName = ''Maple Grove'', address = ''12 Main St'',
                        city = ''Provo'', state = ''Utah'',
                        interests = [''events''], communityType = ''mixed''\<rparr>\<rparr>,
         exampleBackend\<lparr>
           user_profiles := [''u1'' \<mapsto> profileRow (User ''u1'')
              \<lparr>neighborhoodName = ''Maple Grove'', address = ''12 Main St'', city = ''Provo'',
                state = ''Utah'', interests = [''events''], communityType = ''mixed''\<rparr>
              (exampleClock 0) (exampleClock 1)],
           neighborhoods := [''u1'' \<mapsto> neighborhoodRow (User ''u1'')
              \<lparr>neighborhoodName = ''Maple Grove'', address = ''12 Main St'', city = ''Provo'',
                state = ''Utah'', interests = [''events''], communityType = ''mixed''\<rparr>
              (exampleClock 2) (exampleClock 3)]\<rparr>,
         [1, 1, 2, 2, 2, 2, 2, 3, 3, 3],
         [GetUser, ConsoleLog ''Saving profile with data:'',
          Upsert ''user_profiles'' (profileRow (User ''u1'')
              \<lparr>neighborhoodName = ''Maple Grove'', address = ''12 Main St'', city = ''Provo'',
                state = ''Utah'', interests = [''events''], communityType = ''mixed''\<rparr>
              (exampleClock 0) (exampleClock 1)),
          Upsert ''neighborhoods'' (neighborhoodRow (User ''u1'')
              \<lparr>neighborhoodName = ''Maple Grove'', address = ''12 Main St'', city = ''Provo'',
                state = ''Utah'', interests = [''events''], communityType = ''mixed''\<rparr>
              (exampleClock 2) (exampleClock 3)),
          ConsoleLog ''Successfully saved data, redirecting to dashboard...'',
          RouterPush ''/dashboard''])"
    by (rule inst [THEN conjunct2, THEN conjunct2, THEN conjunct2, THEN conjunct2,
          THEN conjunct2, THEN conjunct2, THEN conjunct1])
  from count show ?thesis by (simp only: whole snd_conv)
qed

end
